theory Spec2Isabelle
  imports Complex_Main "HOL-Library.Multiset"
begin

section \<open>JavaScript values\<close>

text \<open>
  The product metadata that the Steam client library hands to \<^verbatim>\<open>SteamClient\<close>, the
  storefront's search response and the identifiers the command line keeps are plain
  JavaScript data. A value is \<^verbatim>\<open>undefined\<close>, \<^verbatim>\<open>null\<close>, a boolean, a number, a
  string, an array or an object.

  \<^item> A number held in the data is an integer (ids, sizes, epoch seconds), \<open>JNum n\<close>.
    A number the program computes (the numeric reading of a string, the difference of
    two timestamps, a price divided by 100) is a \<open>jsnumber\<close>: NaN, an infinity, or a
    finite rational, rounded to a double where the language rounds.
  \<^item> A string is a list of characters; a character stands for the code unit of the
    same number, so the text covered is that of the code units below 256.
  \<^item> An object is the list of its own enumerable properties in the order in which
    JavaScript enumerates them; the first binding of a key is the property's value.
\<close>

datatype jsval =
    JUndefined
  | JNull
  | JBool bool
  | JNum int
  | JStr string
  | JArr "jsval list"
  | JObj "(string \<times> jsval) list"

text \<open>What a \<^verbatim>\<open>throw\<close> or a rejected promise carries: a TypeError of the language, or
  an error with the given message (raised by the program or by a library call).\<close>

datatype error =
    TypeError
  | Failure string

text \<open>A promise that has settled: the value an \<^verbatim>\<open>async\<close> function returned, or the error it threw.\<close>

datatype 'a promise = Resolved 'a | Rejected error

text \<open>Sequencing of steps that may throw: the first error ends the computation.\<close>

definition and_then :: "error + 'a \<Rightarrow> ('a \<Rightarrow> error + 'b) \<Rightarrow> error + 'b" where
  "and_then r f = (case r of Inl e \<Rightarrow> Inl e | Inr v \<Rightarrow> f v)"

text \<open>\<^verbatim>\<open>if (v)\<close>, \<^verbatim>\<open>!v\<close>, \<^verbatim>\<open>a || b\<close>, \<^verbatim>\<open>a && b\<close>: the falsy values are \<^verbatim>\<open>undefined\<close>, \<^verbatim>\<open>null\<close>,
  \<^verbatim>\<open>false\<close>, \<^verbatim>\<open>0\<close> and the empty string.\<close>

fun truthy :: "jsval \<Rightarrow> bool" where
  "truthy JUndefined = False"
| "truthy JNull = False"
| "truthy (JBool b) = b"
| "truthy (JNum n) = (n \<noteq> 0)"
| "truthy (JStr s) = (s \<noteq> [])"
| "truthy (JArr xs) = True"
| "truthy (JObj kvs) = True"

definition js_or :: "jsval \<Rightarrow> jsval \<Rightarrow> jsval" where
  "js_or a b = (if truthy a then a else b)"

subsection \<open>Digits and numerals\<close>

definition digit_of :: "char \<Rightarrow> nat option" where
  "digit_of c = map_of
     (zip ''0123456789abcdefABCDEF''
          [0, 1, 2, 3, 4, 5, 6, 7, 8, 9, 10, 11, 12, 13, 14, 15, 10, 11, 12, 13, 14, 15]) c"

definition is_digit :: "nat \<Rightarrow> char \<Rightarrow> bool" where
  "is_digit radix c = (case digit_of c of None \<Rightarrow> False | Some d \<Rightarrow> d < radix)"

definition digits_value :: "nat \<Rightarrow> string \<Rightarrow> nat" where
  "digits_value radix ds =
     foldl (\<lambda>acc c. acc * radix + (case digit_of c of None \<Rightarrow> 0 | Some d \<Rightarrow> d)) 0 ds"

definition digit_char :: "nat \<Rightarrow> char" where
  "digit_char d = ''0123456789'' ! d"

fun show_nat :: "nat \<Rightarrow> string" where
  "show_nat n = (if n < 10 then [digit_char n] else show_nat (n div 10) @ [digit_char (n mod 10)])"

declare show_nat.simps [simp del]

text \<open>White space and line terminators as \<^verbatim>\<open>String.prototype.trim\<close>, \<^verbatim>\<open>parseInt\<close> and the
  numeric reading of a string skip them. Among the code units below 256 these are tab,
  line feed, vertical tab, form feed, carriage return, space and no-break space.\<close>

definition is_space :: "char \<Rightarrow> bool" where
  "is_space c =
     (c \<in> set [CHR 0x09, CHR 0x0A, CHR 0x0B, CHR 0x0C, CHR 0x0D, CHR 0x20, CHR 0xA0])"

definition trim :: "string \<Rightarrow> string" where
  "trim s = rev (dropWhile is_space (rev (dropWhile is_space s)))"

text \<open>\<^verbatim>\<open>parseInt(s)\<close> with no radix: leading white space and one sign are skipped, a
  prefix \<^verbatim>\<open>0x\<close> selects radix 16, and the longest run of digits is read; with no digit
  the result is NaN (\<open>None\<close>).\<close>

definition strip_sign :: "string \<Rightarrow> string" where
  "strip_sign s =
     (case s of [] \<Rightarrow> [] | c # r \<Rightarrow> if c = CHR ''+'' \<or> c = CHR ''-'' then r else s)"

definition has_hex_prefix :: "string \<Rightarrow> bool" where
  "has_hex_prefix s =
     (case s of a # b # _ \<Rightarrow> a = CHR ''0'' \<and> (b = CHR ''x'' \<or> b = CHR ''X'') | _ \<Rightarrow> False)"

definition parseInt :: "string \<Rightarrow> int option" where
  "parseInt s =
     (let s1 = dropWhile is_space s;
          neg = (case s1 of [] \<Rightarrow> False | c # _ \<Rightarrow> c = CHR ''-'');
          s2 = strip_sign s1;
          hex = has_hex_prefix s2;
          radix = (if hex then 16 else 10);
          s3 = (if hex then drop 2 s2 else s2);
          z = takeWhile (is_digit radix) s3
      in if z = [] then None
         else Some ((if neg then - 1 else 1) * int (digits_value radix z)))"

text \<open>A number is a double. \<open>round_nat n\<close> is the double nearest to the natural number
  \<open>n\<close>, ties to the even significand of 53 bits; up to \<open>2^53\<close> every integer is a
  double.\<close>

fun bit_length :: "nat \<Rightarrow> nat" where
  "bit_length n = (if n = 0 then 0 else Suc (bit_length (n div 2)))"

declare bit_length.simps [simp del]

definition round_nat :: "nat \<Rightarrow> nat" where
  "round_nat n =
     (if n \<le> 2 ^ 53 then n
      else (let e = bit_length n - 53; q = n div 2 ^ e; r = n mod 2 ^ e
            in (if 2 * r > 2 ^ e \<or> (2 * r = 2 ^ e \<and> odd q) then q + 1 else q) * 2 ^ e))"

text \<open>\<^verbatim>\<open>Number::toString\<close> prints the fewest significant digits that read back as the
  same double; of the two candidates with \<open>k\<close> digits it takes the one nearer to the
  number, the even one on a tie. A number from \<open>10^21\<close> on is printed in exponent form,
  and one from \<open>2^1024\<close> on is \<^verbatim>\<open>Infinity\<close>.\<close>

definition candidate :: "nat \<Rightarrow> nat \<Rightarrow> nat option" where
  "candidate x k =
     (let p = 10 ^ (length (show_nat x) - k); lo = (x div p) * p; hi = lo + p;
          lo_ok = (round_nat lo = x); hi_ok = (round_nat hi = x)
      in if lo_ok \<and> hi_ok then
           (if x - lo < hi - x then Some lo else if hi - x < x - lo then Some hi
            else if even (lo div p) then Some lo else Some hi)
         else if lo_ok then Some lo else if hi_ok then Some hi else None)"

fun shortest_from :: "nat \<Rightarrow> nat \<Rightarrow> nat \<Rightarrow> nat" where
  "shortest_from x k 0 = x"
| "shortest_from x k (Suc fuel) =
     (case candidate x k of Some c \<Rightarrow> c | None \<Rightarrow> shortest_from x (Suc k) fuel)"

definition exponent_form :: "string \<Rightarrow> string" where
  "exponent_form ds =
     (case rev (dropWhile (\<lambda>c. c = CHR ''0'') (rev ds)) of
        [] \<Rightarrow> ds
      | d # rest \<Rightarrow>
          d # (if rest = [] then [] else CHR ''.'' # rest) @ ''e+'' @ show_nat (length ds - 1))"

definition show_number :: "nat \<Rightarrow> string" where
  "show_number n =
     (let x = round_nat n in
      if x \<ge> 2 ^ 1024 then ''Infinity''
      else (let ds = show_nat (if x \<le> 2 ^ 53 then x
                               else shortest_from x 1 (length (show_nat x)))
            in if length ds \<le> 21 then ds else exponent_form ds))"

definition number_text :: "int \<Rightarrow> string" where
  "number_text i =
     (if i < 0 then CHR ''-'' # show_number (nat (- i)) else show_number (nat i))"

text \<open>An array index is the canonical decimal numeral of a number below \<open>2^32 - 1\<close>.\<close>

definition array_index :: "string \<Rightarrow> nat option" where
  "array_index k =
     (if k \<noteq> [] \<and> list_all (is_digit 10) k \<and> (k = ''0'' \<or> hd k \<noteq> CHR ''0'')
         \<and> digits_value 10 k < 4294967295
      then Some (digits_value 10 k) else None)"

subsection \<open>Strings\<close>

fun starts_with :: "string \<Rightarrow> string \<Rightarrow> bool" where
  "starts_with s [] = True"
| "starts_with [] (p # ps) = False"
| "starts_with (c # cs) (p # ps) = (c = p \<and> starts_with cs ps)"

text \<open>\<^verbatim>\<open>s.includes(needle)\<close> on a string: \<open>needle\<close> occurs in \<open>s\<close>.\<close>

fun str_includes :: "string \<Rightarrow> string \<Rightarrow> bool" where
  "str_includes [] needle = (needle = [])"
| "str_includes (c # cs) needle = (starts_with (c # cs) needle \<or> str_includes cs needle)"

text \<open>The lower-case form of a character: of the letters A to Z, and of the accented
  capital letters among the code units below 256 (\<open>0xC0\<close> to \<open>0xDE\<close> without the
  multiplication sign \<open>0xD7\<close>).\<close>

definition lower_char :: "char \<Rightarrow> char" where
  "lower_char c =
     (case map_of
             (zip (''ABCDEFGHIJKLMNOPQRSTUVWXYZ''
                     @ [CHR 0xC0, CHR 0xC1, CHR 0xC2, CHR 0xC3, CHR 0xC4, CHR 0xC5, CHR 0xC6, CHR 0xC7,
                  CHR 0xC8, CHR 0xC9, CHR 0xCA, CHR 0xCB, CHR 0xCC, CHR 0xCD, CHR 0xCE, CHR 0xCF,
                  CHR 0xD0, CHR 0xD1, CHR 0xD2, CHR 0xD3, CHR 0xD4, CHR 0xD5, CHR 0xD6, CHR 0xD8,
                  CHR 0xD9, CHR 0xDA, CHR 0xDB, CHR 0xDC, CHR 0xDD, CHR 0xDE])
                  (''abcdefghijklmnopqrstuvwxyz''
                     @ [CHR 0xE0, CHR 0xE1, CHR 0xE2, CHR 0xE3, CHR 0xE4, CHR 0xE5, CHR 0xE6, CHR 0xE7,
                  CHR 0xE8, CHR 0xE9, CHR 0xEA, CHR 0xEB, CHR 0xEC, CHR 0xED, CHR 0xEE, CHR 0xEF,
                  CHR 0xF0, CHR 0xF1, CHR 0xF2, CHR 0xF3, CHR 0xF4, CHR 0xF5, CHR 0xF6, CHR 0xF8,
                  CHR 0xF9, CHR 0xFA, CHR 0xFB, CHR 0xFC, CHR 0xFD, CHR 0xFE])) c of
        None \<Rightarrow> c | Some l \<Rightarrow> l)"

definition lower_string :: "string \<Rightarrow> string" where
  "lower_string s = map lower_char s"

subsection \<open>Property access\<close>

definition lookup :: "(string \<times> jsval) list \<Rightarrow> string \<Rightarrow> jsval" where
  "lookup kvs k = (case map_of kvs k of None \<Rightarrow> JUndefined | Some v \<Rightarrow> v)"

text \<open>\<open>prop_of v k\<close> is \<^verbatim>\<open>v[k]\<close> for a value that is neither \<^verbatim>\<open>undefined\<close> nor \<^verbatim>\<open>null\<close>. The
  program reads properties by fixed names, none of which a prototype supplies, and by a
  depot id; inherited members other than \<^verbatim>\<open>length\<close> are therefore not modelled.\<close>

fun prop_of :: "jsval \<Rightarrow> string \<Rightarrow> jsval" where
  "prop_of (JObj kvs) k = lookup kvs k"
| "prop_of (JArr xs) k =
     (case array_index k of
        Some i \<Rightarrow> if i < length xs then xs ! i else JUndefined
      | None \<Rightarrow> if k = ''length'' then JNum (int (length xs)) else JUndefined)"
| "prop_of (JStr s) k =
     (case array_index k of
        Some i \<Rightarrow> if i < length s then JStr [s ! i] else JUndefined
      | None \<Rightarrow> if k = ''length'' then JNum (int (length s)) else JUndefined)"
| "prop_of v k = JUndefined"

text \<open>\<^verbatim>\<open>v.k\<close>: reading a property of \<^verbatim>\<open>undefined\<close> or \<^verbatim>\<open>null\<close> throws a TypeError.\<close>

definition get :: "jsval \<Rightarrow> string \<Rightarrow> error + jsval" where
  "get v k = (if v = JUndefined \<or> v = JNull then Inl TypeError else Inr (prop_of v k))"

text \<open>\<^verbatim>\<open>v?.k\<close>: \<^verbatim>\<open>undefined\<close> when \<open>v\<close> is \<^verbatim>\<open>undefined\<close> or \<^verbatim>\<open>null\<close>.\<close>

definition get_opt :: "jsval \<Rightarrow> string \<Rightarrow> jsval" where
  "get_opt v k = (if v = JUndefined \<or> v = JNull then JUndefined else prop_of v k)"

text \<open>The keys a \<^verbatim>\<open>for ... in\<close> loop and \<^verbatim>\<open>Object.entries\<close> visit.\<close>

fun own_keys :: "jsval \<Rightarrow> string list" where
  "own_keys (JObj kvs) = map fst kvs"
| "own_keys (JArr xs) = map show_nat [0..<length xs]"
| "own_keys (JStr s) = map show_nat [0..<length s]"
| "own_keys v = []"

definition object_entries :: "jsval \<Rightarrow> (string \<times> jsval) list" where
  "object_entries v = map (\<lambda>k. (k, prop_of v k)) (own_keys v)"

text \<open>\<^verbatim>\<open>v.includes(needle)\<close>: a substring test on a string, a membership test on an array,
  and a TypeError on every other value (it has no such method).\<close>

fun includes_js :: "jsval \<Rightarrow> string \<Rightarrow> error + bool" where
  "includes_js (JStr s) needle = Inr (str_includes s needle)"
| "includes_js (JArr xs) needle = Inr (JStr needle \<in> set xs)"
| "includes_js v needle = Inl TypeError"

text \<open>\<^verbatim>\<open>v.toLowerCase()\<close>: only a string has the method.\<close>

fun toLowerCase :: "jsval \<Rightarrow> error + string" where
  "toLowerCase (JStr s) = Inr (lower_string s)"
| "toLowerCase v = Inl TypeError"

text \<open>The text a template literal \<^verbatim>\<open>${v}\<close> inserts.\<close>

fun to_string :: "jsval \<Rightarrow> string"
  and join_elements :: "jsval list \<Rightarrow> string" where
  "to_string JUndefined = ''undefined''"
| "to_string JNull = ''null''"
| "to_string (JBool b) = (if b then ''true'' else ''false'')"
| "to_string (JNum n) = number_text n"
| "to_string (JStr s) = s"
| "to_string (JArr xs) = join_elements xs"
| "to_string (JObj kvs) = ''[object Object]''"
| "join_elements [] = []"
| "join_elements (x # xs) =
     (if x = JUndefined \<or> x = JNull then [] else to_string x)
       @ (if xs = [] then [] else CHR '','' # join_elements xs)"

section \<open>SteamClient.getOsType\<close>

text \<open>Lines 168 to 175: the explicit OS list. \<open>None\<close> means that no \<^verbatim>\<open>return\<close> was reached.\<close>

definition osFromConfig :: "jsval \<Rightarrow> error + jsval option" where
  "osFromConfig depot =
     and_then (get depot ''config'') (\<lambda>config.
       if truthy config then
         and_then (get config ''oslist'') (\<lambda>oslist.
           if truthy oslist then
             and_then (includes_js oslist ''windows'') (\<lambda>w.
               if w then Inr (Some (JStr ''Windows'')) else
             and_then (includes_js oslist ''macos'') (\<lambda>m.
               if m then Inr (Some (JStr ''Mac'')) else
             and_then (includes_js oslist ''linux'') (\<lambda>l.
               if l then Inr (Some (JStr ''Linux'')) else Inr (Some oslist))))
           else Inr None)
       else Inr None)"

text \<open>Lines 178 to 185: the display name, and the default.\<close>

definition osFromName :: "jsval \<Rightarrow> error + jsval" where
  "osFromName depot =
     and_then (get depot ''name'') (\<lambda>nm.
       if truthy nm then
         and_then (toLowerCase nm) (\<lambda>name.
           if str_includes name ''windows'' then Inr (JStr ''Windows'')
           else if str_includes name ''mac'' \<or> str_includes name ''osx'' then Inr (JStr ''Mac'')
           else if str_includes name ''linux'' then Inr (JStr ''Linux'')
           else Inr (JStr ''Unknown''))
       else Inr (JStr ''Unknown''))"

definition getOsType :: "jsval \<Rightarrow> error + jsval" where
  "getOsType depot =
     and_then (osFromConfig depot) (\<lambda>r.
       case r of Some os \<Rightarrow> Inr os | None \<Rightarrow> osFromName depot)"

section \<open>SteamClient.getGameDepots\<close>

text \<open>The entries the function returns. Fields that an object literal of the source does
  not set read as \<^verbatim>\<open>undefined\<close>. The fields \<^verbatim>\<open>id\<close>, \<^verbatim>\<open>name\<close> and \<^verbatim>\<open>rawData\<close> carry the
  record's name in front, since the plain names are taken.\<close>

record depot =
  depot_id :: jsval
  depot_name :: jsval
  osType :: jsval
  dlcAppId :: jsval
  maxSize :: jsval
  systemDefined :: jsval
  optional :: jsval
  sharedInstall :: jsval
  language :: jsval
  encryptedSize :: jsval
  depot_rawData :: jsval

text \<open>What the callback of \<^verbatim>\<open>client.getProductInfo\<close> delivers: an error, or \<^verbatim>\<open>apps[appId]\<close>
  (which is \<^verbatim>\<open>undefined\<close> for an app the answer does not list).\<close>

datatype product_reply = ProductError string | Product jsval

text \<open>Lines 135 to 139 and 151 to 155: the app itself as the only depot.\<close>

definition app_as_depot :: "jsval \<Rightarrow> jsval \<Rightarrow> depot" where
  "app_as_depot appId name =
     \<lparr>depot_id = appId, depot_name = name, osType = JStr ''Unknown'',
      dlcAppId = JUndefined, maxSize = JUndefined, systemDefined = JUndefined,
      optional = JUndefined, sharedInstall = JUndefined, language = JUndefined,
      encryptedSize = JUndefined, depot_rawData = JUndefined\<rparr>"

text \<open>Lines 99 to 125, for one key that was not skipped. \<^verbatim>\<open>depot.name\<close> throws when the
  entry is \<^verbatim>\<open>null\<close>; once it has been read the later reads cannot throw.\<close>

definition make_depot :: "jsval \<Rightarrow> string \<Rightarrow> error + depot" where
  "make_depot depotData depotId =
     (let d = prop_of depotData depotId in
      and_then (get d ''name'') (\<lambda>nm.
      and_then (getOsType d) (\<lambda>os.
        Inr \<lparr>depot_id = JStr depotId,
             depot_name = js_or nm (JStr (''Depot '' @ depotId)),
             osType = os,
             dlcAppId = js_or (prop_of d ''dlcappid'') JNull,
             maxSize = js_or (prop_of d ''maxsize'') JNull,
             systemDefined = js_or (prop_of d ''systemdefined'') (JBool False),
             optional = js_or (prop_of d ''optional'') (JBool False),
             sharedInstall = js_or (prop_of d ''sharedinstall'') (JBool False),
             language = js_or (get_opt (prop_of d ''config'') ''language'') JNull,
             encryptedSize = js_or (prop_of d ''encryptedsize'') JNull,
             depot_rawData = d\<rparr>)))"

text \<open>Lines 94 to 126: the loop over the keys of the depot table, with the list built so far.\<close>

fun depot_loop :: "jsval \<Rightarrow> string list \<Rightarrow> depot list \<Rightarrow> error + depot list" where
  "depot_loop depotData [] depots = Inr depots"
| "depot_loop depotData (depotId # rest) depots =
     (if depotId = ''branches'' \<or> parseInt depotId = None
      then depot_loop depotData rest depots
      else (case make_depot depotData depotId of
              Inl e \<Rightarrow> Inl e
            | Inr d \<Rightarrow> depot_loop depotData rest (depots @ [d])))"

text \<open>The body of the \<^verbatim>\<open>try\<close> block, lines 65 to 142.\<close>

definition getGameDepots_try :: "jsval \<Rightarrow> product_reply \<Rightarrow> error + depot list" where
  "getGameDepots_try appId reply =
     (case reply of
        ProductError msg \<Rightarrow> Inl (Failure msg)
      | Product productInfo \<Rightarrow>
          if \<not> truthy productInfo \<or> \<not> truthy (prop_of productInfo ''appinfo'') then Inr []
          else
            (let appinfo = prop_of productInfo ''appinfo'';
                 depotData = prop_of appinfo ''depots''
             in and_then
                  (if truthy depotData then depot_loop depotData (own_keys depotData) []
                   else Inr [])
                  (\<lambda>depots.
                     if depots = []
                     then Inr [app_as_depot appId
                                 (js_or (get_opt (prop_of appinfo ''common'') ''name'')
                                        (JStr (''App '' @ to_string appId)))]
                     else Inr depots)))"

text \<open>The whole function: the \<^verbatim>\<open>catch\<close> clause, lines 143 to 157, turns every error into
  the one-entry list.\<close>

definition getGameDepots :: "jsval \<Rightarrow> product_reply \<Rightarrow> depot list promise" where
  "getGameDepots appId reply =
     (case getGameDepots_try appId reply of
        Inl e \<Rightarrow> Resolved [app_as_depot appId (JStr (''App '' @ to_string appId))]
      | Inr depots \<Rightarrow> Resolved depots)"

section \<open>SteamClient.getDepotManifests\<close>

record manifest =
  manifestId :: jsval
  buildId :: jsval
  branch :: jsval
  description :: jsval
  timeupdated :: jsval
  manifest_size :: jsval
  isPublic :: bool
  isHistorical :: bool
  manifest_rawData :: jsval

text \<open>Lines 229 to 238: one entry of the depot's own manifest map.\<close>

definition depot_manifest :: "string \<Rightarrow> jsval \<Rightarrow> error + manifest" where
  "depot_manifest key details =
     and_then (get details ''buildid'') (\<lambda>b.
       Inr \<lparr>manifestId = JStr key,
            buildId = js_or b (JStr ''Unknown''),
            branch = JStr ''Unknown'',
            description = JStr ''Depot manifest'',
            timeupdated = js_or (prop_of details ''date'') JNull,
            manifest_size = js_or (prop_of details ''size'') JNull,
            isPublic = True,
            isHistorical = True,
            manifest_rawData = JUndefined\<rparr>)"

fun entries_loop :: "(string \<times> jsval) list \<Rightarrow> manifest list \<Rightarrow> error + manifest list" where
  "entries_loop [] manifests = Inr manifests"
| "entries_loop ((key, details) # rest) manifests =
     (case depot_manifest key details of
        Inl e \<Rightarrow> Inl e
      | Inr m \<Rightarrow> entries_loop rest (manifests @ [m]))"

text \<open>Lines 224 to 241. The computed key \<^verbatim>\<open>[depotId]\<close> is the text of the depot id.\<close>

definition direct_manifests :: "jsval \<Rightarrow> jsval \<Rightarrow> manifest list \<Rightarrow> error + manifest list" where
  "direct_manifests depotData depotId manifests =
     (let d = prop_of depotData (to_string depotId) in
      if truthy d \<and> truthy (prop_of d ''manifests'')
      then entries_loop (object_entries (prop_of d ''manifests'')) manifests
      else Inr manifests)"

text \<open>Lines 251 to 263, for a branch that is not \<^verbatim>\<open>null\<close> and has a build id: the manifest
  of the depot when the branch names one, the build id otherwise.\<close>

definition branch_manifestId :: "jsval \<Rightarrow> jsval \<Rightarrow> jsval" where
  "branch_manifestId b depotId =
     (let ds = prop_of b ''depots'';
          override =
            (if truthy ds \<and> truthy (prop_of ds (to_string depotId))
                \<and> truthy (prop_of (prop_of ds (to_string depotId)) ''manifest'')
             then prop_of (prop_of ds (to_string depotId)) ''manifest'' else JNull)
      in if \<not> truthy override \<and> truthy (prop_of b ''buildid'')
         then prop_of b ''buildid'' else override)"

definition branch_manifest :: "string \<Rightarrow> jsval \<Rightarrow> jsval \<Rightarrow> manifest" where
  "branch_manifest branchName b mid =
     \<lparr>manifestId = mid,
      buildId = prop_of b ''buildid'',
      branch = JStr branchName,
      description = js_or (prop_of b ''description'') (JStr []),
      timeupdated = js_or (prop_of b ''timeupdated'') JNull,
      manifest_size = JUndefined,
      isPublic = truthy (prop_of b ''public''),
      isHistorical = False,
      manifest_rawData = b\<rparr>"

text \<open>Lines 245 to 279: the loop over the branch names. \<^verbatim>\<open>branch.buildid\<close> throws when the
  entry is \<^verbatim>\<open>null\<close>.\<close>

fun branch_loop :: "jsval \<Rightarrow> jsval \<Rightarrow> string list \<Rightarrow> manifest list \<Rightarrow> error + manifest list" where
  "branch_loop branches depotId [] manifests = Inr manifests"
| "branch_loop branches depotId (branchName # rest) manifests =
     (case get (prop_of branches branchName) ''buildid'' of
        Inl e \<Rightarrow> Inl e
      | Inr buildid \<Rightarrow>
          if truthy buildid
               \<and> truthy (branch_manifestId (prop_of branches branchName) depotId)
          then branch_loop branches depotId rest
                 (manifests @ [branch_manifest branchName (prop_of branches branchName)
                                 (branch_manifestId (prop_of branches branchName) depotId)])
          else branch_loop branches depotId rest manifests)"

text \<open>Lines 285 to 324: the five sample entries. \<open>now\<close> is \<^verbatim>\<open>Math.floor(Date.now() / 1000)\<close>,
  the clock in seconds, read within one second.\<close>

definition sample :: "string \<Rightarrow> int \<Rightarrow> string \<Rightarrow> manifest" where
  "sample mid time build =
     \<lparr>manifestId = JStr mid,
      buildId = JStr build,
      branch = JStr ''historical'',
      description = JStr ''Previously seen manifest'',
      timeupdated = JNum time,
      manifest_size = JUndefined,
      isPublic = True,
      isHistorical = True,
      manifest_rawData = JUndefined\<rparr>"

definition historicalManifests :: "int \<Rightarrow> manifest list" where
  "historicalManifests now =
     [sample ''2946550127499212992'' (now - 2 * 24 * 60 * 60) ''Recent'',
      sample ''4931450830400310210'' (now - 2 * 24 * 60 * 60 - 3600) ''Recent'',
      sample ''9512939615798864588'' (now - 10 * 24 * 60 * 60) ''Older'',
      sample ''2488226670458163874'' (now - 15 * 24 * 60 * 60) ''Older'',
      sample ''8387145243060614243'' (now - 16 * 24 * 60 * 60) ''Older'']"

subsection \<open>The sort\<close>

text \<open>A computed number: NaN, an infinity, or a finite value.\<close>

datatype jsnumber = NaN | PosInf | NegInf | Finite rat

definition pow_int :: "rat \<Rightarrow> int \<Rightarrow> rat" where
  "pow_int b e = (if 0 \<le> e then b ^ nat e else 1 / b ^ nat (- e))"

text \<open>\<open>floor_log2 q\<close> is the exponent \<open>e\<close> with \<open>2^e \<le> q < 2^(e + 1)\<close>, for a positive \<open>q\<close>.\<close>

definition floor_log2 :: "rat \<Rightarrow> int" where
  "floor_log2 q =
     (let e0 = int (bit_length (nat (fst (quotient_of q))))
                 - int (bit_length (nat (snd (quotient_of q))))
      in if pow_int 2 e0 \<le> q then e0 else e0 - 1)"

definition round_half_even :: "rat \<Rightarrow> int" where
  "round_half_even q =
     (let f = \<lfloor>q\<rfloor>; d = q - of_int f
      in if d < 1 / 2 then f else if 1 / 2 < d then f + 1 else if even f then f else f + 1)"

text \<open>The double nearest to a rational, ties to even: a significand of 53 bits, the least
  exponent that of the subnormal numbers, and an infinity from \<open>2^1024\<close> on. An integer
  of magnitude up to \<open>2^53\<close> is a double.\<close>

definition round_double :: "rat \<Rightarrow> jsnumber" where
  "round_double q =
     (if of_int \<lfloor>q\<rfloor> = q \<and> \<bar>q\<bar> \<le> 2 ^ 53 then Finite q
      else
        (let a = \<bar>q\<bar>;
             e = max (floor_log2 a - 52) (- 1074);
             v = of_int (round_half_even (a / pow_int 2 e)) * pow_int 2 e
         in if 2 ^ 1024 \<le> v then (if 0 < q then PosInf else NegInf)
            else Finite (if 0 < q then v else - v)))"

text \<open>The number a text stands for: white space around it is dropped; the empty text
  is 0; \<^verbatim>\<open>0x\<close>, \<^verbatim>\<open>0o\<close> and \<^verbatim>\<open>0b\<close> introduce an unsigned integer in radix 16, 8 and 2;
  \<^verbatim>\<open>Infinity\<close> may carry a sign; every other number is a decimal literal with an optional
  sign: digits with an optional fraction, or a fraction alone, and an optional exponent.
  Every other text is NaN.\<close>

definition prefixed :: "string \<Rightarrow> char \<Rightarrow> char \<Rightarrow> bool" where
  "prefixed s lower upper =
     (case s of a # b # _ \<Rightarrow> a = CHR ''0'' \<and> (b = lower \<or> b = upper) | _ \<Rightarrow> False)"

definition radix_literal :: "nat \<Rightarrow> string \<Rightarrow> jsnumber" where
  "radix_literal radix ds =
     (if ds \<noteq> [] \<and> list_all (is_digit radix) ds
      then round_double (of_nat (digits_value radix ds)) else NaN)"

definition exponent_part :: "string \<Rightarrow> int option" where
  "exponent_part s =
     (case s of
        [] \<Rightarrow> Some 0
      | c # r \<Rightarrow>
          if (c = CHR ''e'' \<or> c = CHR ''E'') \<and> strip_sign r \<noteq> []
               \<and> list_all (is_digit 10) (strip_sign r)
          then Some ((case r of d # _ \<Rightarrow> if d = CHR ''-'' then - 1 else 1 | [] \<Rightarrow> 1)
                       * int (digits_value 10 (strip_sign r)))
          else None)"

definition decimal_literal :: "string \<Rightarrow> rat option" where
  "decimal_literal s =
     (let ip = takeWhile (is_digit 10) s;
          r1 = dropWhile (is_digit 10) s;
          dot = (case r1 of [] \<Rightarrow> False | c # _ \<Rightarrow> c = CHR ''.'');
          fp = (if dot then takeWhile (is_digit 10) (tl r1) else []);
          r2 = (if dot then dropWhile (is_digit 10) (tl r1) else r1)
      in if ip = [] \<and> fp = [] then None
         else (case exponent_part r2 of
                 None \<Rightarrow> None
               | Some e \<Rightarrow>
                   Some (of_nat (digits_value 10 (ip @ fp)) * pow_int 10 (e - int (length fp)))))"

definition string_to_number :: "string \<Rightarrow> jsnumber" where
  "string_to_number s =
     (let t = trim s;
          neg = (case t of [] \<Rightarrow> False | c # _ \<Rightarrow> c = CHR ''-'');
          u = strip_sign t
      in if t = [] then Finite 0
         else if prefixed t (CHR ''x'') (CHR ''X'') then radix_literal 16 (drop 2 t)
         else if prefixed t (CHR ''o'') (CHR ''O'') then radix_literal 8 (drop 2 t)
         else if prefixed t (CHR ''b'') (CHR ''B'') then radix_literal 2 (drop 2 t)
         else if u = ''Infinity'' then (if neg then NegInf else PosInf)
         else (case decimal_literal u of
                 None \<Rightarrow> NaN
               | Some q \<Rightarrow> round_double (if neg then - q else q)))"

text \<open>The number a value stands for in an arithmetic expression. An array is read
  through its text.\<close>

fun to_number :: "jsval \<Rightarrow> jsnumber" where
  "to_number JUndefined = NaN"
| "to_number JNull = Finite 0"
| "to_number (JBool b) = Finite (if b then 1 else 0)"
| "to_number (JNum n) = Finite (of_int n)"
| "to_number (JStr s) = string_to_number s"
| "to_number (JArr xs) = string_to_number (to_string (JArr xs))"
| "to_number (JObj kvs) = NaN"

text \<open>\<^verbatim>\<open>a - b\<close>. For two finite numbers the value is the exact difference: the double the
  language computes is that difference rounded, which is zero only for equal numbers and
  has the same sign, and the sort reads nothing but the sign.\<close>

fun subtract :: "jsnumber \<Rightarrow> jsnumber \<Rightarrow> jsnumber" where
  "subtract NaN y = NaN"
| "subtract x NaN = NaN"
| "subtract PosInf PosInf = NaN"
| "subtract NegInf NegInf = NaN"
| "subtract PosInf y = PosInf"
| "subtract NegInf y = NegInf"
| "subtract (Finite x) PosInf = NegInf"
| "subtract (Finite x) NegInf = PosInf"
| "subtract (Finite x) (Finite y) = Finite (x - y)"

definition js_minus :: "jsval \<Rightarrow> jsval \<Rightarrow> jsnumber" where
  "js_minus a b = subtract (to_number a) (to_number b)"

text \<open>\<^verbatim>\<open>x / d\<close> for a positive finite divisor.\<close>

fun divide_by :: "jsnumber \<Rightarrow> rat \<Rightarrow> jsnumber" where
  "divide_by (Finite x) d = round_double (x / d)"
| "divide_by x d = x"

text \<open>What the sort reads of the number a comparison returns: its sign, a NaN counting
  as 0.\<close>

fun sign_of :: "jsnumber \<Rightarrow> int" where
  "sign_of NaN = 0"
| "sign_of PosInf = 1"
| "sign_of NegInf = - 1"
| "sign_of (Finite q) = (if 0 < q then 1 else if q < 0 then - 1 else 0)"

text \<open>Lines 327 to 335: the comparison function, as the sort reads its result.\<close>

definition compareManifests :: "manifest \<Rightarrow> manifest \<Rightarrow> int" where
  "compareManifests a b =
     (if truthy (timeupdated a) \<and> truthy (timeupdated b)
      then sign_of (js_minus (timeupdated b) (timeupdated a))
      else if isHistorical a \<and> \<not> isHistorical b then 1
      else if \<not> isHistorical a \<and> isHistorical b then - 1
      else 0)"

text \<open>\<^verbatim>\<open>Array.prototype.sort\<close> is stable. For a comparison function that is consistent on
  the array (as \<^verbatim>\<open>compareManifests\<close> is when every entry carries a timestamp), the result
  is determined by the language: it is the one that every stable sort computes, here an
  insertion sort. For an inconsistent one (a list that mixes entries with and without a
  timestamp) the language leaves the order to the engine, which may return another
  order than this insertion sort.\<close>

fun insert_by :: "('a \<Rightarrow> 'a \<Rightarrow> int) \<Rightarrow> 'a \<Rightarrow> 'a list \<Rightarrow> 'a list" where
  "insert_by cmp x [] = [x]"
| "insert_by cmp x (y # ys) = (if cmp x y \<le> 0 then x # y # ys else y # insert_by cmp x ys)"

fun sort_by :: "('a \<Rightarrow> 'a \<Rightarrow> int) \<Rightarrow> 'a list \<Rightarrow> 'a list" where
  "sort_by cmp [] = []"
| "sort_by cmp (x # xs) = insert_by cmp x (sort_by cmp xs)"

subsection \<open>The function\<close>

text \<open>The body of the \<^verbatim>\<open>try\<close> block, lines 200 to 345.\<close>

definition getDepotManifests_try :: "int \<Rightarrow> product_reply \<Rightarrow> jsval \<Rightarrow> error + manifest list" where
  "getDepotManifests_try now reply depotId =
     (case reply of
        ProductError msg \<Rightarrow> Inl (Failure msg)
      | Product productInfo \<Rightarrow>
          if \<not> truthy productInfo \<or> \<not> truthy (prop_of productInfo ''appinfo'')
               \<or> \<not> truthy (prop_of (prop_of productInfo ''appinfo'') ''depots'')
          then Inr []
          else
            (let depotData = prop_of (prop_of productInfo ''appinfo'') ''depots'' in
             and_then (direct_manifests depotData depotId []) (\<lambda>direct.
             and_then
               (if truthy (prop_of depotData ''branches'')
                then branch_loop (prop_of depotData ''branches'') depotId
                       (own_keys (prop_of depotData ''branches'')) direct
                else Inr direct)
               (\<lambda>declared.
                  Inr (sort_by compareManifests (declared @ historicalManifests now))))))"

text \<open>The whole function: the \<^verbatim>\<open>catch\<close> clause, lines 346 to 351, returns the empty list.\<close>

definition getDepotManifests :: "int \<Rightarrow> product_reply \<Rightarrow> jsval \<Rightarrow> manifest list promise" where
  "getDepotManifests now reply depotId =
     (case getDepotManifests_try now reply depotId of
        Inl e \<Rightarrow> Resolved []
      | Inr manifests \<Rightarrow> Resolved manifests)"

section \<open>SteamSearch.searchGames\<close>

text \<open>The query \<^verbatim>\<open>axios.get\<close> sends, and what it answers: an error, or the \<^verbatim>\<open>data\<close> of the
  response.\<close>

record request =
  req_url :: string
  req_params :: "(string \<times> string) list"
  req_headers :: "(string \<times> string) list"

datatype http_reply = HttpError string | HttpData jsval

definition search_request :: "string \<Rightarrow> request" where
  "search_request searchTerm =
     \<lparr>req_url = ''https://store.steampowered.com/api/storesearch'',
      req_params = [(''term'', searchTerm), (''l'', ''english''), (''cc'', ''US'')],
      req_headers =
        [(''User-Agent'',
          ''Mozilla/5.0 (Windows NT 10.0; Win64; x64) AppleWebKit/537.36 (KHTML, like Gecko) Chrome/134.0.0.0 Safari/537.36''),
         (''Accept'', ''application/json'')]\<rparr>"

text \<open>An entry of the result. The price is the number \<^verbatim>\<open>final / 100\<close>.\<close>

record app =
  appid :: jsval
  app_name :: jsval
  app_type :: jsval
  price :: jsnumber
  discount :: jsval
  image :: jsval

text \<open>Lines 47 to 54, for one item; \<^verbatim>\<open>item.id\<close> throws when the item is \<^verbatim>\<open>null\<close>.\<close>

definition search_item :: "jsval \<Rightarrow> error + app" where
  "search_item item =
     and_then (get item ''id'') (\<lambda>i.
       Inr \<lparr>appid = i,
            app_name = prop_of item ''name'',
            app_type = prop_of item ''type'',
            price =
              (if truthy (prop_of item ''price'')
               then divide_by (to_number (prop_of (prop_of item ''price'') ''final'')) 100
               else Finite 0),
            discount =
              (if truthy (prop_of item ''price'')
               then prop_of (prop_of item ''price'') ''discount_percent'' else JNum 0),
            image = prop_of item ''tiny_image''\<rparr>)"

fun items_map :: "jsval list \<Rightarrow> error + app list" where
  "items_map [] = Inr []"
| "items_map (item # rest) =
     (case search_item item of
        Inl e \<Rightarrow> Inl e
      | Inr a \<Rightarrow> (case items_map rest of Inl e \<Rightarrow> Inl e | Inr as \<Rightarrow> Inr (a # as)))"

text \<open>Lines 38 to 54: what the function makes of the answer. Only an array has \<^verbatim>\<open>map\<close>.\<close>

definition search_result :: "http_reply \<Rightarrow> error + app list" where
  "search_result reply =
     (case reply of
        HttpError msg \<Rightarrow> Inl (Failure msg)
      | HttpData data \<Rightarrow>
          if \<not> truthy data \<or> \<not> truthy (prop_of data ''items'')
               \<or> prop_of (prop_of data ''items'') ''length'' = JNum 0
          then Inr []
          else (case prop_of data ''items'' of
                  JArr items \<Rightarrow> items_map items
                | _ \<Rightarrow> Inl TypeError))"

text \<open>The whole function: the queries it sends, and its outcome. The request of line 29 is
  the first statement of the \<^verbatim>\<open>try\<close> block; the \<^verbatim>\<open>catch\<close> clause throws the error again.\<close>

definition searchGames :: "string \<Rightarrow> http_reply \<Rightarrow> request list \<times> app list promise" where
  "searchGames searchTerm reply =
     ([search_request searchTerm],
      (case search_result reply of Inl e \<Rightarrow> Rejected e | Inr apps \<Rightarrow> Resolved apps))"

section \<open>CLI\<close>

subsection \<open>getSearchTerm\<close>

text \<open>Lines 72 to 77: the \<^verbatim>\<open>validate\<close> function of the prompt returns \<^verbatim>\<open>true\<close> or a message.\<close>

datatype validation = Accepted | Refused string

definition validate :: "string \<Rightarrow> validation" where
  "validate input =
     (if trim input = [] then Refused ''Please enter a game name to search'' else Accepted)"

text \<open>The input prompt of the \<^verbatim>\<open>inquirer\<close> library shows the message of a refused entry and
  asks again; it answers with the first entry that \<^verbatim>\<open>validate\<close> accepts. \<open>entries\<close> are the
  lines the user submits, in order; \<open>None\<close> means that the prompt is still waiting.\<close>

fun prompt_input :: "(string \<Rightarrow> validation) \<Rightarrow> string list \<Rightarrow> string option" where
  "prompt_input v [] = None"
| "prompt_input v (entry # entries) =
     (if v entry = Accepted then Some entry else prompt_input v entries)"

text \<open>Lines 60 to 82; \<open>isSteamRunning\<close> is the answer of \<^verbatim>\<open>checkSteamRunning\<close>.\<close>

definition getSearchTerm :: "bool \<Rightarrow> string list \<Rightarrow> string promise option" where
  "getSearchTerm isSteamRunning entries =
     (if \<not> isSteamRunning then Some (Rejected (Failure ''Steam must be running to use this tool.''))
      else map_option Resolved (prompt_input validate entries))"

text \<open>The two steps of \<^verbatim>\<open>SteamSearchApp.start\<close> that lead to the search: the term is asked
  for, and the term the prompt answers with is searched. The result is the list of queries
  sent to the storefront.\<close>

definition start_search :: "bool \<Rightarrow> string list \<Rightarrow> http_reply \<Rightarrow> request list" where
  "start_search isSteamRunning entries reply =
     (case getSearchTerm isSteamRunning entries of
        Some (Resolved searchTerm) \<Rightarrow> fst (searchGames searchTerm reply)
      | _ \<Rightarrow> [])"

subsection \<open>generateSteamCommand\<close>

record cli =
  currentAppId :: jsval
  currentDepotId :: jsval
  currentManifestId :: jsval

text \<open>Lines 346 to 348 of \<^verbatim>\<open>displayManifestDetails\<close>, for a manifest that was selected.\<close>

definition displayManifestDetails :: "manifest \<Rightarrow> jsval \<Rightarrow> jsval \<Rightarrow> cli" where
  "displayManifestDetails m appId depotId =
     \<lparr>currentAppId = appId, currentDepotId = depotId, currentManifestId = manifestId m\<rparr>"

text \<open>Lines 386 to 396: \<open>None\<close> when an id is missing, else \<^verbatim>\<open>steamCommand\<close> and
  \<^verbatim>\<open>commandWithNotes\<close>.\<close>

definition generateSteamCommand :: "cli \<Rightarrow> (string \<times> string) option" where
  "generateSteamCommand c =
     (if \<not> truthy (currentAppId c) \<or> \<not> truthy (currentDepotId c)
           \<or> \<not> truthy (currentManifestId c)
      then None
      else
        (let steamCommand =
               ''download_depot '' @ to_string (currentAppId c) @ '' ''
                 @ to_string (currentDepotId c) @ '' '' @ to_string (currentManifestId c)
         in Some (steamCommand,
                  steamCommand @ [CHR 0x0A, CHR 0x0A]
                    @ ''// IMPORTANT: Wait for download to complete (no progress indicator). After completion, copy files from Steam''
                    @ [CHR 0x5C] @ ''steamapps'' @ [CHR 0x5C] @ ''content'' @ [CHR 0x5C] @ ''app_''
                    @ to_string (currentAppId c) @ [CHR 0x5C] @ ''depot_''
                    @ to_string (currentDepotId c) @ '' to your game folder.'')))"

section \<open>Vocabulary of the properties\<close>

subsection \<open>The classification policy, in the words of the specification\<close>

datatype os_class = Windows | Mac | Linux | Unknown | Other jsval

text \<open>An OS list contains a name: as an element of a list, or as a part of a text.\<close>

fun contains_os :: "jsval \<Rightarrow> string \<Rightarrow> bool" where
  "contains_os (JArr xs) w = (JStr w \<in> set xs)"
| "contains_os (JStr s) w = str_includes s w"
| "contains_os v w = False"

text \<open>(a) an explicit OS list decides; (b) else the display name, read without regard to
  case; (c) else Unknown.\<close>

definition os_policy :: "jsval option \<Rightarrow> string option \<Rightarrow> os_class" where
  "os_policy oslist name =
     (case oslist of
        Some l \<Rightarrow>
          if contains_os l ''windows'' then Windows
          else if contains_os l ''macos'' then Mac
          else if contains_os l ''linux'' then Linux
          else Other l
      | None \<Rightarrow>
          (case name of
             Some n \<Rightarrow>
               if str_includes (lower_string n) ''windows'' then Windows
               else if str_includes (lower_string n) ''mac'' \<or> str_includes (lower_string n) ''osx''
               then Mac
               else if str_includes (lower_string n) ''linux'' then Linux
               else Unknown
           | None \<Rightarrow> Unknown))"

text \<open>The value by which the program reports a class.\<close>

fun render_os :: "os_class \<Rightarrow> jsval" where
  "render_os Windows = JStr ''Windows''"
| "render_os Mac = JStr ''Mac''"
| "render_os Linux = JStr ''Linux''"
| "render_os Unknown = JStr ''Unknown''"
| "render_os (Other v) = v"

text \<open>The two signals of a depot entry: the OS list, when the entry has a configuration with
  one, and the display name, when it is a text that is not empty.\<close>

definition explicit_oslist :: "jsval \<Rightarrow> jsval option" where
  "explicit_oslist d =
     (let config = prop_of d ''config'' in
      if truthy config \<and> truthy (prop_of config ''oslist'')
      then Some (prop_of config ''oslist'') else None)"

definition display_name :: "jsval \<Rightarrow> string option" where
  "display_name d =
     (case prop_of d ''name'' of JStr s \<Rightarrow> if s = [] then None else Some s | _ \<Rightarrow> None)"

fun is_text_or_list :: "jsval \<Rightarrow> bool" where
  "is_text_or_list (JStr s) = True"
| "is_text_or_list (JArr xs) = True"
| "is_text_or_list v = False"

subsection \<open>Depot tables and manifest maps\<close>

text \<open>The keys of a depot table that the loop of \<^verbatim>\<open>getGameDepots\<close> does not skip.\<close>

definition qualifying_keys :: "jsval \<Rightarrow> string list" where
  "qualifying_keys depotData =
     filter (\<lambda>k. k \<noteq> ''branches'' \<and> parseInt k \<noteq> None) (own_keys depotData)"

text \<open>No entry of a table is \<^verbatim>\<open>null\<close> or \<^verbatim>\<open>undefined\<close>. The Steam client library parses the
  product metadata from key-value data, which has texts, numbers and nested tables only,
  so every table it delivers is of this kind. (A value with no entries, such as a missing
  table, is of this kind too.)\<close>

definition entries_defined :: "jsval \<Rightarrow> bool" where
  "entries_defined v =
     list_all (\<lambda>k. prop_of v k \<noteq> JUndefined \<and> prop_of v k \<noteq> JNull) (own_keys v)"

text \<open>The manifests that a depot table declares for a depot, in the order of the merge:
  one for each entry of the depot's own manifest map that can be read, then one for each
  branch that has a build id and, from its override or its build id, a manifest id.\<close>

definition direct_list :: "jsval \<Rightarrow> jsval \<Rightarrow> manifest list" where
  "direct_list depotData depotId =
     (let d = prop_of depotData (to_string depotId) in
      if truthy d \<and> truthy (prop_of d ''manifests'')
      then concat (map (\<lambda>(k, x). case depot_manifest k x of Inl e \<Rightarrow> [] | Inr m \<Rightarrow> [m])
                     (object_entries (prop_of d ''manifests'')))
      else [])"

definition branch_list :: "jsval \<Rightarrow> jsval \<Rightarrow> manifest list" where
  "branch_list depotData depotId =
     (let bs = prop_of depotData ''branches'' in
      map (\<lambda>k. branch_manifest k (prop_of bs k) (branch_manifestId (prop_of bs k) depotId))
        (filter (\<lambda>k. truthy (prop_of (prop_of bs k) ''buildid'')
                      \<and> truthy (branch_manifestId (prop_of bs k) depotId))
           (own_keys bs)))"

definition declared_manifests :: "jsval \<Rightarrow> jsval \<Rightarrow> manifest list" where
  "declared_manifests depotData depotId =
     direct_list depotData depotId @ branch_list depotData depotId"

subsection \<open>Timestamps\<close>

text \<open>A manifest carries a timestamp when its \<^verbatim>\<open>timeupdated\<close> is present and stands for a
  finite number; \<open>seconds\<close> is that number.\<close>

definition has_epoch :: "manifest \<Rightarrow> bool" where
  "has_epoch m =
     (truthy (timeupdated m)
        \<and> (case to_number (timeupdated m) of Finite q \<Rightarrow> True | _ \<Rightarrow> False))"

definition seconds :: "manifest \<Rightarrow> rat" where
  "seconds m = (case to_number (timeupdated m) of Finite q \<Rightarrow> q | _ \<Rightarrow> 0)"

subsection \<open>Keys of a depot table\<close>

text \<open>A valid positive integer id, in the words of the specification: decimal digits that
  denote a number above zero.\<close>

definition positive_integer_id :: "string \<Rightarrow> bool" where
  "positive_integer_id k = (k \<noteq> [] \<and> list_all (is_digit 10) k \<and> 0 < digits_value 10 k)"

text \<open>A numeric key, in the words of the amended claim: after leading white space and an
  optional sign, the key begins with a decimal digit, or with \<^verbatim>\<open>0x\<close> or \<^verbatim>\<open>0X\<close> and a
  hexadecimal digit after it.\<close>

definition begins_with :: "(char \<Rightarrow> bool) \<Rightarrow> string \<Rightarrow> bool" where
  "begins_with P s = (case s of [] \<Rightarrow> False | c # _ \<Rightarrow> P c)"

definition numeric_key :: "string \<Rightarrow> bool" where
  "numeric_key k =
     (let r = strip_sign (dropWhile is_space k)
      in if has_hex_prefix r then begins_with (is_digit 16) (drop 2 r)
         else begins_with (is_digit 10) r)"

subsection \<open>Queries\<close>

text \<open>The search term a query carries.\<close>

definition query_term :: "request \<Rightarrow> string option" where
  "query_term r = map_of (req_params r) ''term''"

section \<open>Properties\<close>

subsection \<open>OS classification\<close>

lemma includes_contains: "is_text_or_list l \<Longrightarrow> includes_js l w = Inr (contains_os l w)"
  by (cases l) auto

lemma osFromConfig_some:
  assumes "d \<noteq> JUndefined" "d \<noteq> JNull" "explicit_oslist d = Some l" "is_text_or_list l"
  shows "osFromConfig d = Inr (Some (render_os (os_policy (Some l) n)))"
  using assms
  by (auto simp: osFromConfig_def explicit_oslist_def Let_def get_def and_then_def os_policy_def
      includes_contains split: if_splits)

lemma osFromConfig_none:
  assumes "d \<noteq> JUndefined" "d \<noteq> JNull" "explicit_oslist d = None"
  shows "osFromConfig d = Inr None"
  using assms
  by (auto simp: osFromConfig_def explicit_oslist_def Let_def get_def and_then_def split: if_splits)

lemma osFromName_policy:
  assumes "d \<noteq> JUndefined" "d \<noteq> JNull"
    and "truthy (prop_of d ''name'') \<longrightarrow> (\<exists>s. prop_of d ''name'' = JStr s)"
  shows "osFromName d = Inr (render_os (os_policy None (display_name d)))"
  using assms
  by (cases "prop_of d ''name''")
     (auto simp: osFromName_def display_name_def get_def and_then_def os_policy_def)

text \<open>
  Claim C6. \<^verbatim>\<open>getOsType\<close> follows the priority policy. For every depot entry whose OS list,
  when it has one, is a list or a text, and whose display name, when it is consulted, is a
  text, the result is the class that the policy \<open>os_policy\<close> assigns: a list containing
  "windows", "macos" or "linux" (looked for in this order) gives Windows, Mac or Linux, any
  other OS list is passed through as it is; without an OS list the display name is searched,
  without regard to case, for "windows", then "mac" or "osx", then "linux"; with neither
  signal the result is Unknown.
\<close>

theorem getOsType_policy:
  assumes "d \<noteq> JUndefined" "d \<noteq> JNull"
    and "\<forall>l. explicit_oslist d = Some l \<longrightarrow> is_text_or_list l"
    and "explicit_oslist d = None \<longrightarrow> truthy (prop_of d ''name'')
           \<longrightarrow> (\<exists>s. prop_of d ''name'' = JStr s)"
  shows "getOsType d = Inr (render_os (os_policy (explicit_oslist d) (display_name d)))"
proof (cases "explicit_oslist d")
  case None
  with assms show ?thesis
    by (simp add: getOsType_def osFromConfig_none osFromName_policy and_then_def)
next
  case (Some l)
  with assms have "is_text_or_list l" by simp
  from osFromConfig_some [OF assms(1,2) Some this, of "display_name d"] Some
  show ?thesis
    by (simp add: getOsType_def and_then_def)
qed

text \<open>The three cases the specification names: the OS list \<^verbatim>\<open>["windows"]\<close>, the name
  "Linux content" with no OS list, and an entry with neither.\<close>

theorem getOsType_policy_witness:
  "getOsType (JObj [(''config'', JObj [(''oslist'', JArr [JStr ''windows''])])])
     = Inr (JStr ''Windows'')
   \<and> getOsType (JObj [(''name'', JStr ''Linux content'')]) = Inr (JStr ''Linux'')
   \<and> getOsType (JObj []) = Inr (JStr ''Unknown'')"
  using getOsType_policy [of "JObj [(''config'', JObj [(''oslist'', JArr [JStr ''windows''])])]"]
    getOsType_policy [of "JObj [(''name'', JStr ''Linux content'')]"]
    getOsType_policy [of "JObj []"]
  by (simp add: explicit_oslist_def display_name_def os_policy_def lookup_def lower_string_def
      lower_char_def)

subsection \<open>Depots\<close>

lemma depot_loop_ids:
  "depot_loop depotData ks acc = Inr ds \<Longrightarrow>
   map depot_id ds =
     map depot_id acc @ map JStr (filter (\<lambda>k. k \<noteq> ''branches'' \<and> parseInt k \<noteq> None) ks)"
proof (induction ks arbitrary: acc)
  case Nil
  then show ?case by simp
next
  case (Cons k ks)
  show ?case
  proof (cases "k = ''branches'' \<or> parseInt k = None")
    case True
    with Cons show ?thesis by auto
  next
    case False
    with Cons.prems obtain d where d: "make_depot depotData k = Inr d"
      and rest: "depot_loop depotData ks (acc @ [d]) = Inr ds"
      by (auto split: sum.splits)
    from d have "depot_id d = JStr k"
      by (auto simp: make_depot_def Let_def and_then_def split: sum.splits)
    with Cons.IH [OF rest] False show ?thesis by simp
  qed
qed

lemma depot_loop_skip_all:
  "filter (\<lambda>k. k \<noteq> ''branches'' \<and> parseInt k \<noteq> None) ks = [] \<Longrightarrow>
   depot_loop depotData ks acc = Inr acc"
  by (induction ks arbitrary: acc) (auto split: if_splits)

text \<open>
  Claim C10. \<^verbatim>\<open>getGameDepots\<close> never propagates an error: whatever the product-info fetch
  delivers, the promise resolves; and for every error of the fetch the result is exactly
  one fallback depot whose id is the requested app id, whose name is "App <appId>" and
  whose OS type is "Unknown".
\<close>

theorem getGameDepots_fetch_error:
  "(\<exists>ds. getGameDepots appId reply = Resolved ds)
   \<and> getGameDepots appId (ProductError msg)
       = Resolved [app_as_depot appId (JStr (''App '' @ to_string appId))]
   \<and> depot_id (app_as_depot appId (JStr (''App '' @ to_string appId))) = appId
   \<and> depot_name (app_as_depot appId (JStr (''App '' @ to_string appId)))
       = JStr (''App '' @ to_string appId)
   \<and> osType (app_as_depot appId (JStr (''App '' @ to_string appId))) = JStr ''Unknown''"
  by (simp add: getGameDepots_def getGameDepots_try_def app_as_depot_def split: sum.splits)

text \<open>
  Claim C1, as stated, fails: for an app that the answer of the fetch does not list, and for
  a product info without an \<^verbatim>\<open>appinfo\<close> section, no depot entry qualifies, and the guard
  of lines 81 to 84 returns the empty list.
\<close>

theorem getGameDepots_missing_appinfo_counterexample:
  "getGameDepots (JNum 413150) (Product JUndefined) = Resolved []
   \<and> getGameDepots (JNum 413150) (Product (JObj [(''changenumber'', JNum 17)])) = Resolved []"
  by (simp add: getGameDepots_def getGameDepots_try_def lookup_def)

text \<open>
  Claim C1, amended. When the product info or its \<^verbatim>\<open>appinfo\<close> section is missing,
  \<^verbatim>\<open>getGameDepots\<close> returns the empty list. For every product info that has an \<^verbatim>\<open>appinfo\<close>
  section the result is not empty, and when the depot table yields no qualifying entry it
  is exactly one synthetic depot whose id is the app id, whose name is the display name of
  the app (or "App <appId>" when there is none) and whose OS type is "Unknown".
\<close>

theorem getGameDepots_nonempty:
  "(\<not> truthy productInfo \<or> \<not> truthy (prop_of productInfo ''appinfo'')
      \<longrightarrow> getGameDepots appId (Product productInfo) = Resolved [])
   \<and> (truthy productInfo \<and> truthy (prop_of productInfo ''appinfo'')
      \<longrightarrow> (\<exists>ds. getGameDepots appId (Product productInfo) = Resolved ds \<and> ds \<noteq> [])
        \<and> (qualifying_keys (prop_of (prop_of productInfo ''appinfo'') ''depots'') = []
            \<longrightarrow> getGameDepots appId (Product productInfo)
                = Resolved
                    [app_as_depot appId
                       (js_or (get_opt (prop_of (prop_of productInfo ''appinfo'') ''common'') ''name'')
                              (JStr (''App '' @ to_string appId)))]))"
proof (intro conjI impI)
  assume "\<not> truthy productInfo \<or> \<not> truthy (prop_of productInfo ''appinfo'')"
  then show "getGameDepots appId (Product productInfo) = Resolved []"
    by (auto simp: getGameDepots_def getGameDepots_try_def)
next
  assume "truthy productInfo \<and> truthy (prop_of productInfo ''appinfo'')"
  then show "\<exists>ds. getGameDepots appId (Product productInfo) = Resolved ds \<and> ds \<noteq> []"
    by (auto simp: getGameDepots_def getGameDepots_try_def Let_def and_then_def split: sum.splits)
next
  assume t: "truthy productInfo \<and> truthy (prop_of productInfo ''appinfo'')"
    and q: "qualifying_keys (prop_of (prop_of productInfo ''appinfo'') ''depots'') = []"
  let ?dd = "prop_of (prop_of productInfo ''appinfo'') ''depots''"
  from q have "depot_loop ?dd (own_keys ?dd) [] = Inr []"
    by (simp add: qualifying_keys_def depot_loop_skip_all)
  with t show "getGameDepots appId (Product productInfo)
                = Resolved
                    [app_as_depot appId
                       (js_or (get_opt (prop_of (prop_of productInfo ''appinfo'') ''common'') ''name'')
                              (JStr (''App '' @ to_string appId)))]"
    by (simp add: getGameDepots_def getGameDepots_try_def Let_def and_then_def)
qed

text \<open>An unknown app; an app whose depot table holds branches only; an app with no depot
  table and no display name.\<close>

theorem getGameDepots_nonempty_witness:
  "getGameDepots (JNum 413150) (Product JUndefined) = Resolved []
   \<and> getGameDepots (JNum 413150)
        (Product (JObj [(''appinfo'',
           JObj [(''common'', JObj [(''name'', JStr ''Stardew Valley'')]),
                 (''depots'',
                  JObj [(''branches'', JObj [(''public'', JObj [(''buildid'', JStr ''8071262'')])])])])]))
      = Resolved [app_as_depot (JNum 413150) (JStr ''Stardew Valley'')]
   \<and> getGameDepots (JNum 413150) (Product (JObj [(''appinfo'', JObj [(''appid'', JStr ''413150'')])]))
      = Resolved [app_as_depot (JNum 413150) (JStr ''App 413150'')]"
  using getGameDepots_nonempty [of JUndefined "JNum 413150"]
    getGameDepots_nonempty [of "JObj [(''appinfo'',
           JObj [(''common'', JObj [(''name'', JStr ''Stardew Valley'')]),
                 (''depots'',
                  JObj [(''branches'', JObj [(''public'', JObj [(''buildid'', JStr ''8071262'')])])])])]"
      "JNum 413150"]
    getGameDepots_nonempty [of "JObj [(''appinfo'', JObj [(''appid'', JStr ''413150'')])]" "JNum 413150"]
  by (simp add: qualifying_keys_def lookup_def parseInt_def strip_sign_def has_hex_prefix_def
      is_space_def is_digit_def digit_of_def
      js_or_def get_opt_def number_text_def show_number_def round_nat_def Let_def show_nat.simps digit_char_def)

subsection \<open>The console command\<close>

text \<open>A number is printed as the shortest decimal that reads back as the same double:
  an app id in plain digits, \<open>10^21\<close> in exponent form, and \<open>2^53 + 1\<close>, which is no
  double, as its neighbour.\<close>

lemma number_text_examples:
  "to_string (JNum 413150) = ''413150''"
  "to_string (JNum (- 7)) = ''-7''"
  "to_string (JNum 9007199254740993) = ''9007199254740992''"
  "to_string (JNum 1000000000000000000000) = ''1e+21''"
  by (simp_all add: number_text_def show_number_def round_nat_def Let_def show_nat.simps
      digit_char_def bit_length.simps candidate_def exponent_form_def)

text \<open>
  Claim C8, refuted as stated for every triple: an id that is absent or falsy (here the
  app id 0) makes \<^verbatim>\<open>generateSteamCommand\<close> return at its guard, and no command is printed.
\<close>

theorem generateSteamCommand_falsy_id_counterexample:
  "generateSteamCommand
     \<lparr>currentAppId = JNum 0, currentDepotId = JStr ''413153'',
      currentManifestId = JStr ''8881193748180768755''\<rparr> = None"
  by (simp add: generateSteamCommand_def)

text \<open>
  Claim C8, corrected. A command is printed exactly when each of the three ids is present
  (truthy). For every such triple it is the one line
  \<^verbatim>\<open>download_depot <appId> <depotId> <manifestId>\<close>: the three ids, as a template literal
  prints them, after the fixed word and separated by single spaces; it has no line break
  unless an id has one.
\<close>

theorem generateSteamCommand_form:
  "map_option fst
     (generateSteamCommand
        \<lparr>currentAppId = appId, currentDepotId = depotId, currentManifestId = mid\<rparr>)
   = (if truthy appId \<and> truthy depotId \<and> truthy mid
      then Some (''download_depot '' @ to_string appId @ '' '' @ to_string depotId
                   @ '' '' @ to_string mid)
      else None)
   \<and> (CHR 0x0A \<notin> set (to_string appId) \<and> CHR 0x0A \<notin> set (to_string depotId)
         \<and> CHR 0x0A \<notin> set (to_string mid)
       \<longrightarrow> CHR 0x0A \<notin> set (''download_depot '' @ to_string appId @ '' '' @ to_string depotId
                            @ '' '' @ to_string mid))"
  by (simp add: generateSteamCommand_def Let_def)

text \<open>The example of the specification: app 413150, depot "413153", manifest
  "8881193748180768755".\<close>

theorem generateSteamCommand_form_witness:
  "map_option fst
     (generateSteamCommand
        (displayManifestDetails
           \<lparr>manifestId = JStr ''8881193748180768755'', buildId = JStr ''8071262'',
            branch = JStr ''public'', description = JStr [], timeupdated = JNull,
            manifest_size = JUndefined, isPublic = True, isHistorical = False,
            manifest_rawData = JUndefined\<rparr>
           (JNum 413150) (JStr ''413153'')))
   = Some ''download_depot 413150 413153 8881193748180768755''"
  using generateSteamCommand_form [of "JNum 413150" "JStr ''413153''" "JStr ''8881193748180768755''"]
  by (simp add: displayManifestDetails_def number_text_def show_number_def round_nat_def Let_def show_nat.simps digit_char_def)

subsection \<open>The sort of the manifests\<close>

lemma mset_insert_by: "mset (insert_by cmp x xs) = add_mset x (mset xs)"
  by (induction xs) auto

lemma mset_sort_by: "mset (sort_by cmp xs) = mset xs"
  by (induction xs) (auto simp: mset_insert_by)

lemma set_sort_by: "set (sort_by cmp xs) = set xs"
  by (metis mset_sort_by set_mset_mset)

lemma length_sort_by: "length (sort_by cmp xs) = length xs"
  by (metis mset_sort_by size_mset)

lemma set_insert_by: "set (insert_by cmp x xs) = insert x (set xs)"
  by (induction xs) auto

lemma compare_epochs:
  "has_epoch a \<Longrightarrow> has_epoch b \<Longrightarrow> (compareManifests a b \<le> 0) = (seconds b \<le> seconds a)"
  by (auto simp: has_epoch_def seconds_def compareManifests_def js_minus_def
      split: jsnumber.splits)

lemma insert_by_descending:
  assumes "has_epoch x" "list_all has_epoch ys"
    and "sorted_wrt (\<lambda>a b. seconds b \<le> seconds a) ys"
  shows "sorted_wrt (\<lambda>a b. seconds b \<le> seconds a) (insert_by compareManifests x ys)"
  using assms
proof (induction ys)
  case Nil
  then show ?case by simp
next
  case (Cons y ys)
  then have c: "(compareManifests x y \<le> 0) = (seconds y \<le> seconds x)"
    by (simp add: compare_epochs)
  show ?case
  proof (cases "compareManifests x y \<le> 0")
    case True
    with c Cons.prems show ?thesis by auto
  next
    case False
    with c Cons show ?thesis by (auto simp: set_insert_by)
  qed
qed

lemma sort_by_descending:
  "list_all has_epoch xs \<Longrightarrow>
   sorted_wrt (\<lambda>a b. seconds b \<le> seconds a) (sort_by compareManifests xs)"
proof (induction xs)
  case Nil
  then show ?case by simp
next
  case (Cons x xs)
  then have "list_all has_epoch (sort_by compareManifests xs)"
    by (simp add: list_all_iff set_sort_by)
  with Cons show ?case by (simp add: insert_by_descending)
qed

text \<open>Entries with the same timestamp keep the order of the input.\<close>

lemma insert_by_stable:
  assumes "has_epoch x" "list_all has_epoch ys"
    and "sorted_wrt (\<lambda>a b. seconds b \<le> seconds a) ys"
  shows "filter (\<lambda>m. seconds m = t) (insert_by compareManifests x ys)
         = (if seconds x = t then x # filter (\<lambda>m. seconds m = t) ys
            else filter (\<lambda>m. seconds m = t) ys)"
  using assms
proof (induction ys)
  case Nil
  then show ?case by simp
next
  case (Cons y ys)
  then have c: "(compareManifests x y \<le> 0) = (seconds y \<le> seconds x)"
    by (simp add: compare_epochs)
  show ?case
  proof (cases "compareManifests x y \<le> 0")
    case True
    then show ?thesis by simp
  next
    case False
    with c Cons show ?thesis by auto
  qed
qed

lemma sort_by_stable:
  "list_all has_epoch xs \<Longrightarrow>
   filter (\<lambda>m. seconds m = t) (sort_by compareManifests xs) = filter (\<lambda>m. seconds m = t) xs"
proof (induction xs)
  case Nil
  then show ?case by simp
next
  case (Cons x xs)
  then have "list_all has_epoch (sort_by compareManifests xs)"
    by (simp add: list_all_iff set_sort_by)
  with Cons show ?case by (simp add: insert_by_stable sort_by_descending)
qed


text \<open>On a list in which every entry carries a timestamp the comparison function is
  consistent, and the result of the sort is the one every stable sort returns: the stable
  sort of the list by descending timestamp.\<close>

lemma sort_by_is_stable_sort:
  assumes "list_all has_epoch xs"
  shows "sort_by compareManifests xs = sort_key (\<lambda>m. - seconds m) xs"
proof -
  have "sorted_wrt (\<lambda>a b. seconds b \<le> seconds a) (sort_by compareManifests xs)"
    using assms by (rule sort_by_descending)
  then have s: "sorted (map (\<lambda>m. - seconds m) (sort_by compareManifests xs))"
    by (simp add: sorted_wrt_map)
  have f: "filter (\<lambda>x. - seconds k = - seconds x) (sort_by compareManifests xs)
             = filter (\<lambda>x. - seconds k = - seconds x) xs" for k
    using sort_by_stable [OF assms, of "seconds k"] by (simp add: eq_commute [of "seconds k"])
  have "sort_key (\<lambda>m. - seconds m) xs = sort_by compareManifests xs"
    using mset_sort_by f s by (rule properties_for_sort_key)
  then show ?thesis by simp
qed

text \<open>A current entry without a timestamp goes to the front; a historical entry passes all
  of them.\<close>

lemma insert_untimed_current:
  "\<not> isHistorical x \<Longrightarrow> \<not> truthy (timeupdated x) \<Longrightarrow> insert_by compareManifests x ys = x # ys"
  by (cases ys) (auto simp: compareManifests_def)

lemma insert_historical_behind:
  "isHistorical x \<Longrightarrow> list_all (\<lambda>m. \<not> isHistorical m \<and> \<not> truthy (timeupdated m)) ns \<Longrightarrow>
   insert_by compareManifests x (ns @ hs) = ns @ insert_by compareManifests x hs"
  by (induction ns) (auto simp: compareManifests_def)

lemma sort_current_first:
  assumes "list_all (\<lambda>m. if isHistorical m then has_epoch m else \<not> truthy (timeupdated m)) merged"
  shows "sort_by compareManifests merged
         = filter (\<lambda>m. \<not> isHistorical m) merged
             @ sort_by compareManifests (filter isHistorical merged)"
  using assms
proof (induction merged)
  case Nil
  then show ?case by simp
next
  case (Cons x xs)
  then have ih: "sort_by compareManifests xs
         = filter (\<lambda>m. \<not> isHistorical m) xs @ sort_by compareManifests (filter isHistorical xs)"
    by simp
  show ?case
  proof (cases "isHistorical x")
    case True
    from Cons.prems have "list_all (\<lambda>m. \<not> isHistorical m \<and> \<not> truthy (timeupdated m))
                            (filter (\<lambda>m. \<not> isHistorical m) xs)"
      by (auto simp: list_all_iff split: if_splits)
    with True ih show ?thesis by (simp add: insert_historical_behind)
  next
    case False
    with Cons.prems ih show ?thesis by (simp add: insert_untimed_current)
  qed
qed

text \<open>The five samples are in descending order as they stand.\<close>

lemma sort_samples: "sort_by compareManifests (historicalManifests now) = historicalManifests now"
  by (simp add: historicalManifests_def sample_def compareManifests_def js_minus_def)

subsection \<open>Manifests\<close>

lemma own_keys_falsy: "\<not> truthy v \<Longrightarrow> own_keys v = []"
  by (cases v) auto

lemma manifests_of_falsy: "\<not> truthy v \<Longrightarrow> prop_of v ''manifests'' = JUndefined"
  by (cases v) (simp_all add: array_index_def is_digit_def digit_of_def)

text \<open>The loops, entry by entry: with no \<^verbatim>\<open>null\<close> entry they collect the declared manifests,
  and a \<^verbatim>\<open>null\<close> entry makes them throw.\<close>

lemma entries_loop_list:
  "list_all (\<lambda>(k, x). x \<noteq> JUndefined \<and> x \<noteq> JNull) es \<Longrightarrow>
   entries_loop es acc
     = Inr (acc @ concat (map (\<lambda>(k, x). case depot_manifest k x of Inl e \<Rightarrow> [] | Inr m \<Rightarrow> [m]) es))"
proof (induction es arbitrary: acc)
  case Nil
  then show ?case by simp
next
  case (Cons e es)
  obtain k x where e: "e = (k, x)" by (cases e)
  with Cons.prems have x: "x \<noteq> JUndefined" "x \<noteq> JNull"
    and rest: "list_all (\<lambda>(k, x). x \<noteq> JUndefined \<and> x \<noteq> JNull) es" by auto
  from x obtain m where m: "depot_manifest k x = Inr m"
    by (auto simp: depot_manifest_def get_def and_then_def)
  from Cons.IH [OF rest, of "acc @ [m]"] e m show ?case by simp
qed

lemma entries_loop_null:
  "\<not> list_all (\<lambda>(k, x). x \<noteq> JUndefined \<and> x \<noteq> JNull) es \<Longrightarrow>
   \<exists>e. entries_loop es acc = Inl e"
proof (induction es arbitrary: acc)
  case Nil
  then show ?case by simp
next
  case (Cons e es)
  obtain k x where e: "e = (k, x)" by (cases e)
  show ?case
  proof (cases "depot_manifest k x")
    case (Inl err)
    with e show ?thesis by simp
  next
    case (Inr m)
    then have "x \<noteq> JUndefined \<and> x \<noteq> JNull"
      by (auto simp: depot_manifest_def get_def and_then_def split: if_splits)
    with Cons.prems e have "\<not> list_all (\<lambda>(k, x). x \<noteq> JUndefined \<and> x \<noteq> JNull) es" by simp
    from Cons.IH [OF this, of "acc @ [m]"] e Inr show ?thesis by simp
  qed
qed

lemma direct_manifests_list:
  assumes "entries_defined (prop_of (prop_of depotData (to_string depotId)) ''manifests'')"
  shows "direct_manifests depotData depotId [] = Inr (direct_list depotData depotId)"
proof -
  let ?m = "prop_of (prop_of depotData (to_string depotId)) ''manifests''"
  from assms have "list_all (\<lambda>(k, x). x \<noteq> JUndefined \<and> x \<noteq> JNull) (object_entries ?m)"
    by (simp add: entries_defined_def object_entries_def list_all_iff)
  from entries_loop_list [OF this, of "[]"] show ?thesis
    by (simp add: direct_manifests_def direct_list_def Let_def)
qed

lemma branch_loop_list:
  "list_all (\<lambda>k. prop_of bs k \<noteq> JUndefined \<and> prop_of bs k \<noteq> JNull) ks \<Longrightarrow>
   branch_loop bs depotId ks acc
     = Inr (acc @ map (\<lambda>k. branch_manifest k (prop_of bs k) (branch_manifestId (prop_of bs k) depotId))
                    (filter (\<lambda>k. truthy (prop_of (prop_of bs k) ''buildid'')
                                  \<and> truthy (branch_manifestId (prop_of bs k) depotId)) ks))"
  by (induction ks arbitrary: acc) (simp_all add: get_def)

lemma branch_loop_null:
  "\<not> list_all (\<lambda>k. prop_of bs k \<noteq> JUndefined \<and> prop_of bs k \<noteq> JNull) ks \<Longrightarrow>
   \<exists>e. branch_loop bs depotId ks acc = Inl e"
  by (induction ks arbitrary: acc) (auto simp: get_def)

lemma getDepotManifests_try_declared:
  assumes "truthy productInfo" "truthy (prop_of productInfo ''appinfo'')"
    and "truthy (prop_of (prop_of productInfo ''appinfo'') ''depots'')"
    and "entries_defined
           (prop_of (prop_of (prop_of (prop_of productInfo ''appinfo'') ''depots'') (to_string depotId))
              ''manifests'')"
    and "entries_defined (prop_of (prop_of (prop_of productInfo ''appinfo'') ''depots'') ''branches'')"
  shows "getDepotManifests_try now (Product productInfo) depotId
           = Inr (sort_by compareManifests
                    (declared_manifests (prop_of (prop_of productInfo ''appinfo'') ''depots'') depotId
                       @ historicalManifests now))"
proof -
  let ?dd = "prop_of (prop_of productInfo ''appinfo'') ''depots''"
  let ?bs = "prop_of ?dd ''branches''"
  have d: "direct_manifests ?dd depotId [] = Inr (direct_list ?dd depotId)"
    using assms(4) by (rule direct_manifests_list)
  from assms(5)
  have b: "branch_loop ?bs depotId (own_keys ?bs) (direct_list ?dd depotId)
             = Inr (declared_manifests ?dd depotId)"
    by (simp add: entries_defined_def branch_loop_list declared_manifests_def branch_list_def Let_def)
  show ?thesis
  proof (cases "truthy ?bs")
    case True
    with assms(1-3) d b show ?thesis
      by (simp add: getDepotManifests_try_def Let_def and_then_def)
  next
    case False
    then have "branch_list ?dd depotId = []"
      by (simp add: branch_list_def Let_def own_keys_falsy)
    with False assms(1-3) d show ?thesis
      by (simp add: getDepotManifests_try_def Let_def and_then_def declared_manifests_def)
  qed
qed

lemma getDepotManifests_try_null:
  assumes "truthy productInfo" "truthy (prop_of productInfo ''appinfo'')"
    and "truthy (prop_of (prop_of productInfo ''appinfo'') ''depots'')"
    and "\<not> (entries_defined
           (prop_of (prop_of (prop_of (prop_of productInfo ''appinfo'') ''depots'') (to_string depotId))
              ''manifests'')
         \<and> entries_defined (prop_of (prop_of (prop_of productInfo ''appinfo'') ''depots'') ''branches''))"
  shows "\<exists>e. getDepotManifests_try now (Product productInfo) depotId = Inl e"
proof -
  let ?dd = "prop_of (prop_of productInfo ''appinfo'') ''depots''"
  let ?d = "prop_of ?dd (to_string depotId)"
  let ?m = "prop_of ?d ''manifests''"
  let ?bs = "prop_of ?dd ''branches''"
  show ?thesis
  proof (cases "entries_defined ?m")
    case False
    then have "own_keys ?m \<noteq> []" by (auto simp: entries_defined_def)
    then have tm: "truthy ?m" using own_keys_falsy by blast
    then have "?m \<noteq> JUndefined" by auto
    then have td: "truthy ?d" using manifests_of_falsy by blast
    from False have "\<not> list_all (\<lambda>(k, x). x \<noteq> JUndefined \<and> x \<noteq> JNull) (object_entries ?m)"
      by (simp add: entries_defined_def object_entries_def list_all_iff)
    from entries_loop_null [OF this, of "[]"]
    obtain e where "entries_loop (object_entries ?m) [] = Inl e" by blast
    with td tm assms(1-3) show ?thesis
      by (simp add: getDepotManifests_try_def direct_manifests_def Let_def and_then_def)
  next
    case True
    with assms(4) have nb: "\<not> entries_defined ?bs" by simp
    then have "own_keys ?bs \<noteq> []" by (auto simp: entries_defined_def)
    then have tb: "truthy ?bs" using own_keys_falsy by blast
    have d: "direct_manifests ?dd depotId [] = Inr (direct_list ?dd depotId)"
      using True by (rule direct_manifests_list)
    from nb branch_loop_null [of ?bs "own_keys ?bs" depotId "direct_list ?dd depotId"]
    obtain e where "branch_loop ?bs depotId (own_keys ?bs) (direct_list ?dd depotId) = Inl e"
      by (auto simp: entries_defined_def)
    with tb d assms(1-3) show ?thesis
      by (simp add: getDepotManifests_try_def Let_def and_then_def)
  qed
qed

lemma getDepotManifests_resolves: "\<exists>ms. getDepotManifests now reply depotId = Resolved ms"
  by (simp add: getDepotManifests_def split: sum.splits)


lemma sample_ids:
  "map manifestId (historicalManifests now) =
     [JStr ''2946550127499212992'', JStr ''4931450830400310210'', JStr ''9512939615798864588'',
      JStr ''2488226670458163874'', JStr ''8387145243060614243'']"
  by (simp add: historicalManifests_def sample_def)

lemma sample_flags:
  "list_all (\<lambda>m. isHistorical m \<and> isPublic m \<and> branch m = JStr ''historical'')
     (historicalManifests now)"
  by (simp add: historicalManifests_def sample_def)

text \<open>
  Claim C9, refuted as stated for every product info that contains a depots table: a
  branch table with a \<^verbatim>\<open>null\<close> entry makes \<^verbatim>\<open>branch.buildid\<close> throw, the \<^verbatim>\<open>catch\<close> clause
  returns the empty list, and no sample is in the result.
\<close>

theorem getDepotManifests_null_branch_counterexample:
  "truthy (prop_of (prop_of (JObj [(''appinfo'',
             JObj [(''depots'',
               JObj [(''413153'', JObj [(''name'', JStr ''Windows content'')]),
                     (''branches'', JObj [(''public'', JNull)])])])]) ''appinfo'') ''depots'')
   \<and> getDepotManifests 1700000000
        (Product (JObj [(''appinfo'',
             JObj [(''depots'',
               JObj [(''413153'', JObj [(''name'', JStr ''Windows content'')]),
                     (''branches'', JObj [(''public'', JNull)])])])]))
        (JStr ''413153'') = Resolved []
   \<and> length (historicalManifests 1700000000) = 5"
  by (simp add: getDepotManifests_def getDepotManifests_try_def Let_def and_then_def lookup_def
      direct_manifests_def get_def historicalManifests_def)

text \<open>
  Claim C9, corrected. For every product info that contains a depots table in which
  neither the manifest map of the depot nor the branch table has a \<^verbatim>\<open>null\<close> or \<^verbatim>\<open>undefined\<close>
  entry, \<^verbatim>\<open>getDepotManifests\<close> appends the five sample manifests with the ids
  "2946550127499212992", "4931450830400310210", "9512939615798864588",
  "2488226670458163874" and "8387145243060614243", each historical, public and of the
  branch "historical": the list it returns contains them, has at least five elements and
  is a rearrangement of the declared manifests and the samples. With such an entry the
  list it returns is empty.
\<close>

theorem getDepotManifests_samples:
  assumes "truthy productInfo" "truthy (prop_of productInfo ''appinfo'')"
    and "truthy (prop_of (prop_of productInfo ''appinfo'') ''depots'')"
  shows "(entries_defined
             (prop_of (prop_of (prop_of (prop_of productInfo ''appinfo'') ''depots'') (to_string depotId)) ''manifests'')
           \<and> entries_defined (prop_of (prop_of (prop_of productInfo ''appinfo'') ''depots'') ''branches'')
          \<longrightarrow> (\<exists>ms. getDepotManifests now (Product productInfo) depotId = Resolved ms
                 \<and> set (historicalManifests now) \<subseteq> set ms \<and> 5 \<le> length ms
                 \<and> mset ms = mset (declared_manifests (prop_of (prop_of productInfo ''appinfo'') ''depots'') depotId)
                               + mset (historicalManifests now)))
       \<and> (\<not> (entries_defined
             (prop_of (prop_of (prop_of (prop_of productInfo ''appinfo'') ''depots'') (to_string depotId)) ''manifests'')
           \<and> entries_defined (prop_of (prop_of (prop_of productInfo ''appinfo'') ''depots'') ''branches''))
          \<longrightarrow> getDepotManifests now (Product productInfo) depotId = Resolved [])
       \<and> map manifestId (historicalManifests now) =
               [JStr ''2946550127499212992'', JStr ''4931450830400310210'',
                JStr ''9512939615798864588'', JStr ''2488226670458163874'',
                JStr ''8387145243060614243'']
       \<and> list_all (\<lambda>m. isHistorical m \<and> isPublic m \<and> branch m = JStr ''historical'')
               (historicalManifests now)"
proof -
  have len: "length (historicalManifests now) = 5" by (simp add: historicalManifests_def)
  have a: "entries_defined
             (prop_of (prop_of (prop_of (prop_of productInfo ''appinfo'') ''depots'') (to_string depotId)) ''manifests'')
           \<and> entries_defined (prop_of (prop_of (prop_of productInfo ''appinfo'') ''depots'') ''branches'')
          \<longrightarrow> (\<exists>ms. getDepotManifests now (Product productInfo) depotId = Resolved ms
                 \<and> set (historicalManifests now) \<subseteq> set ms \<and> 5 \<le> length ms
                 \<and> mset ms = mset (declared_manifests (prop_of (prop_of productInfo ''appinfo'') ''depots'') depotId)
                               + mset (historicalManifests now))"
  proof
    assume e: "entries_defined
             (prop_of (prop_of (prop_of (prop_of productInfo ''appinfo'') ''depots'') (to_string depotId)) ''manifests'')
           \<and> entries_defined (prop_of (prop_of (prop_of productInfo ''appinfo'') ''depots'') ''branches'')"
    from getDepotManifests_try_declared [OF assms conjunct1 [OF e] conjunct2 [OF e]] len
    show "\<exists>ms. getDepotManifests now (Product productInfo) depotId = Resolved ms
                 \<and> set (historicalManifests now) \<subseteq> set ms \<and> 5 \<le> length ms
                 \<and> mset ms = mset (declared_manifests (prop_of (prop_of productInfo ''appinfo'') ''depots'') depotId)
                               + mset (historicalManifests now)"
      by (simp add: getDepotManifests_def set_sort_by length_sort_by mset_sort_by)
  qed
  have b: "\<not> (entries_defined
             (prop_of (prop_of (prop_of (prop_of productInfo ''appinfo'') ''depots'') (to_string depotId)) ''manifests'')
           \<and> entries_defined (prop_of (prop_of (prop_of productInfo ''appinfo'') ''depots'') ''branches''))
          \<longrightarrow> getDepotManifests now (Product productInfo) depotId = Resolved []"
  proof
    assume n: "\<not> (entries_defined
             (prop_of (prop_of (prop_of (prop_of productInfo ''appinfo'') ''depots'') (to_string depotId)) ''manifests'')
           \<and> entries_defined (prop_of (prop_of (prop_of productInfo ''appinfo'') ''depots'') ''branches''))"
    from getDepotManifests_try_null [OF assms n, of now]
    obtain e where "getDepotManifests_try now (Product productInfo) depotId = Inl e"
      by blast
    then show "getDepotManifests now (Product productInfo) depotId = Resolved []"
      by (simp add: getDepotManifests_def)
  qed
  show ?thesis
    by (intro conjI) (rule a b sample_ids sample_flags)+
qed

text \<open>A depot with a manifest map of one entry and a product with one branch, both with
  a timestamp: the result has the samples. The same depot in a product whose branch
  table has a \<^verbatim>\<open>null\<close> entry: the result is empty.\<close>

theorem getDepotManifests_samples_witness:
  "(\<exists>ms. getDepotManifests 1700000000
          (Product (JObj [(''appinfo'',
             JObj [(''depots'',
               JObj [(''413153'',
                      JObj [(''name'', JStr ''Windows content''),
                            (''manifests'',
                             JObj [(''8881193748180768755'',
                                    JObj [(''size'', JStr ''612334515''),
                                          (''date'', JNum 1647000000)])])]),
                     (''branches'',
                      JObj [(''public'',
                             JObj [(''buildid'', JStr ''8071262''),
                                   (''timeupdated'', JNum 1647684332)])])])])]))
          (JStr ''413153'') = Resolved ms
        \<and> set (historicalManifests 1700000000) \<subseteq> set ms \<and> 5 \<le> length ms)
   \<and> getDepotManifests 1700000000
        (Product (JObj [(''appinfo'',
             JObj [(''depots'',
               JObj [(''413153'', JObj [(''name'', JStr ''Windows content'')]),
                     (''branches'', JObj [(''public'', JNull)])])])]))
        (JStr ''413153'') = Resolved []"
proof -
  let ?p = "JObj [(''appinfo'',
             JObj [(''depots'',
               JObj [(''413153'',
                      JObj [(''name'', JStr ''Windows content''),
                            (''manifests'',
                             JObj [(''8881193748180768755'',
                                    JObj [(''size'', JStr ''612334515''),
                                          (''date'', JNum 1647000000)])])]),
                     (''branches'',
                      JObj [(''public'',
                             JObj [(''buildid'', JStr ''8071262''),
                                   (''timeupdated'', JNum 1647684332)])])])])]"
  let ?q = "JObj [(''appinfo'',
             JObj [(''depots'',
               JObj [(''413153'', JObj [(''name'', JStr ''Windows content'')]),
                     (''branches'', JObj [(''public'', JNull)])])])]"
  have "\<exists>ms. getDepotManifests 1700000000 (Product ?p) (JStr ''413153'') = Resolved ms
          \<and> set (historicalManifests 1700000000) \<subseteq> set ms \<and> 5 \<le> length ms
          \<and> mset ms = mset (declared_manifests (prop_of (prop_of ?p ''appinfo'') ''depots'')
                              (JStr ''413153''))
                        + mset (historicalManifests 1700000000)"
    using getDepotManifests_samples [of ?p "JStr ''413153''" 1700000000]
    by (simp add: entries_defined_def lookup_def)
  then have a: "\<exists>ms. getDepotManifests 1700000000 (Product ?p) (JStr ''413153'') = Resolved ms
          \<and> set (historicalManifests 1700000000) \<subseteq> set ms \<and> 5 \<le> length ms"
    by blast
  have b: "getDepotManifests 1700000000 (Product ?q) (JStr ''413153'') = Resolved []"
    using getDepotManifests_samples [of ?q "JStr ''413153''" 1700000000]
    by (simp add: entries_defined_def lookup_def)
  from a b show ?thesis by (rule conjI)
qed

text \<open>
  Claim C3, as stated, fails: for a product whose depot table names the depot, with no
  manifest map and no branch data, the result is not empty; it is the five samples.
\<close>

theorem getDepotManifests_no_declared_counterexample:
  "prop_of (prop_of (JObj [(''413153'', JObj [(''name'', JStr ''Windows content'')])]) ''413153'')
      ''manifests'' = JUndefined
   \<and> prop_of (JObj [(''413153'', JObj [(''name'', JStr ''Windows content'')])]) ''branches''
      = JUndefined
   \<and> getDepotManifests 1700000000
        (Product (JObj [(''appinfo'',
           JObj [(''depots'', JObj [(''413153'', JObj [(''name'', JStr ''Windows content'')])])])]))
        (JStr ''413153'')
      = Resolved (historicalManifests 1700000000)
   \<and> length (historicalManifests 1700000000) = 5"
proof -
  have "length (historicalManifests 1700000000) = 5"
    by (simp add: historicalManifests_def)
  then show ?thesis
    by (simp add: getDepotManifests_def getDepotManifests_try_def Let_def and_then_def
        direct_manifests_def sort_samples lookup_def)
qed

text \<open>
  Claim C3, amended. \<^verbatim>\<open>getDepotManifests\<close> never raises: whatever the fetch delivers, the
  promise resolves. When the fetch fails, or the product info, its \<^verbatim>\<open>appinfo\<close> section or
  its depots table is missing, the result is the empty list. When the depots table is there
  but the named depot exposes no manifest map and the product declares no branch data, the
  result is the list of the five sample manifests.
\<close>

theorem getDepotManifests_no_declared:
  "(\<exists>ms. getDepotManifests now reply depotId = Resolved ms)
   \<and> getDepotManifests now (ProductError msg) depotId = Resolved []
   \<and> (\<not> truthy productInfo \<or> \<not> truthy (prop_of productInfo ''appinfo'')
        \<or> \<not> truthy (prop_of (prop_of productInfo ''appinfo'') ''depots'')
      \<longrightarrow> getDepotManifests now (Product productInfo) depotId = Resolved [])
   \<and> (truthy productInfo \<and> truthy (prop_of productInfo ''appinfo'')
        \<and> truthy (prop_of (prop_of productInfo ''appinfo'') ''depots'')
        \<and> \<not> truthy (prop_of (prop_of (prop_of (prop_of productInfo ''appinfo'') ''depots'')
                                 (to_string depotId)) ''manifests'')
        \<and> \<not> truthy (prop_of (prop_of (prop_of productInfo ''appinfo'') ''depots'') ''branches'')
      \<longrightarrow> getDepotManifests now (Product productInfo) depotId
            = Resolved (historicalManifests now)
          \<and> length (historicalManifests now) = 5)"
proof (intro conjI impI)
  show "\<exists>ms. getDepotManifests now reply depotId = Resolved ms"
    by (rule getDepotManifests_resolves)
  show "getDepotManifests now (ProductError msg) depotId = Resolved []"
    by (simp add: getDepotManifests_def getDepotManifests_try_def)
  show "length (historicalManifests now) = 5"
    by (simp add: historicalManifests_def)
next
  assume "\<not> truthy productInfo \<or> \<not> truthy (prop_of productInfo ''appinfo'')
        \<or> \<not> truthy (prop_of (prop_of productInfo ''appinfo'') ''depots'')"
  then show "getDepotManifests now (Product productInfo) depotId = Resolved []"
    by (auto simp: getDepotManifests_def getDepotManifests_try_def)
next
  assume "truthy productInfo \<and> truthy (prop_of productInfo ''appinfo'')
        \<and> truthy (prop_of (prop_of productInfo ''appinfo'') ''depots'')
        \<and> \<not> truthy (prop_of (prop_of (prop_of (prop_of productInfo ''appinfo'') ''depots'')
                                 (to_string depotId)) ''manifests'')
        \<and> \<not> truthy (prop_of (prop_of (prop_of productInfo ''appinfo'') ''depots'') ''branches'')"
  then show "getDepotManifests now (Product productInfo) depotId
            = Resolved (historicalManifests now)"
    by (simp add: getDepotManifests_def getDepotManifests_try_def Let_def and_then_def
        direct_manifests_def sort_samples)
qed

text \<open>An unknown app; and an app whose depot table has neither manifests nor branches.\<close>

theorem getDepotManifests_no_declared_witness:
  "getDepotManifests 1700000000 (Product JUndefined) (JStr ''413153'') = Resolved []
   \<and> getDepotManifests 1700000000
        (Product (JObj [(''appinfo'',
           JObj [(''depots'', JObj [(''413153'', JObj [(''name'', JStr ''Windows content'')])])])]))
        (JStr ''413153'')
      = Resolved (historicalManifests 1700000000)"
  using getDepotManifests_no_declared [of 1700000000 _ "JStr ''413153''" _ JUndefined]
     getDepotManifests_no_declared [of 1700000000 _ "JStr ''413153''" _
       "JObj [(''appinfo'',
           JObj [(''depots'', JObj [(''413153'', JObj [(''name'', JStr ''Windows content'')])])])]"]
  by (simp add: lookup_def)

lemma samples_have_epoch: "1382400 < now \<Longrightarrow> list_all has_epoch (historicalManifests now)"
  by (simp add: historicalManifests_def sample_def has_epoch_def)



text \<open>
  Claim C2, as stated, fails: a branch that declares no \<^verbatim>\<open>timeupdated\<close> gives a current
  manifest without a timestamp, and the list that \<^verbatim>\<open>getDepotManifests\<close> returns has it in
  front of the five samples, all of which carry a timestamp.
\<close>

theorem untimestamped_first_counterexample:
  "getDepotManifests 1700000000
     (Product (JObj [(''appinfo'',
        JObj [(''depots'',
          JObj [(''413153'', JObj [(''name'', JStr ''Windows content'')]),
                (''branches'', JObj [(''public'', JObj [(''buildid'', JStr ''8071262'')])])])])]))
     (JStr ''413153'')
   = Resolved
       (branch_manifest ''public'' (JObj [(''buildid'', JStr ''8071262'')]) (JStr ''8071262'')
          # historicalManifests 1700000000)
   \<and> timeupdated (branch_manifest ''public'' (JObj [(''buildid'', JStr ''8071262'')]) (JStr ''8071262''))
       = JNull
   \<and> map timeupdated (historicalManifests 1700000000)
       = [JNum 1699827200, JNum 1699823600, JNum 1699136000, JNum 1698704000, JNum 1698617600]"
  by (simp add: getDepotManifests_def getDepotManifests_try_def Let_def and_then_def
        direct_manifests_def lookup_def get_def branch_manifestId_def
        historicalManifests_def sample_def branch_manifest_def js_or_def compareManifests_def
        js_minus_def)

text \<open>
  Claim C2, amended. For a pair of manifests of which exactly one carries a timestamp, the
  comparison does not look at the timestamp: it orders the pair by the historical flag, the
  current manifest before the historical one, and leaves two manifests with the same flag
  in the order of the input. So the manifest with the timestamp comes second when it is the
  historical one of the pair. In a merged list whose current entries carry no timestamp and
  whose historical entries all carry one, every current entry (without a timestamp) is
  ordered before every historical entry (with a timestamp).
\<close>

theorem pair_ordered_by_flag:
  "(truthy (timeupdated a) \<noteq> truthy (timeupdated b)
      \<longrightarrow> compareManifests a b =
            (if isHistorical a \<and> \<not> isHistorical b then 1
             else if \<not> isHistorical a \<and> isHistorical b then - 1 else 0)
        \<and> sort_by compareManifests [a, b] =
            (if isHistorical a \<and> \<not> isHistorical b then [b, a] else [a, b]))
   \<and> (list_all (\<lambda>m. if isHistorical m then has_epoch m else \<not> truthy (timeupdated m)) merged
      \<longrightarrow> sort_by compareManifests merged
            = filter (\<lambda>m. \<not> isHistorical m) merged
                @ sort_by compareManifests (filter isHistorical merged))"
proof (intro conjI impI)
  assume "truthy (timeupdated a) \<noteq> truthy (timeupdated b)"
  then show "compareManifests a b =
            (if isHistorical a \<and> \<not> isHistorical b then 1
             else if \<not> isHistorical a \<and> isHistorical b then - 1 else 0)"
    by (auto simp: compareManifests_def)
  then show "sort_by compareManifests [a, b] =
            (if isHistorical a \<and> \<not> isHistorical b then [b, a] else [a, b])"
    by simp
next
  assume "list_all (\<lambda>m. if isHistorical m then has_epoch m else \<not> truthy (timeupdated m)) merged"
  then show "sort_by compareManifests merged
            = filter (\<lambda>m. \<not> isHistorical m) merged
                @ sort_by compareManifests (filter isHistorical merged)"
    by (rule sort_current_first)
qed

text \<open>A sample of time 300 and a current manifest without a timestamp, in this order: the
  sort puts the current one first. And the current manifest stays in front of the five
  samples.\<close>

theorem pair_ordered_by_flag_witness:
  "sort_by compareManifests
     [sample ''2946550127499212992'' 300 ''Recent'',
      branch_manifest ''public'' (JObj [(''buildid'', JStr ''8071262'')]) (JStr ''8071262'')]
   = [branch_manifest ''public'' (JObj [(''buildid'', JStr ''8071262'')]) (JStr ''8071262''),
      sample ''2946550127499212992'' 300 ''Recent'']
   \<and> sort_by compareManifests
       (branch_manifest ''public'' (JObj [(''buildid'', JStr ''8071262'')]) (JStr ''8071262'')
          # historicalManifests 1700000000)
     = branch_manifest ''public'' (JObj [(''buildid'', JStr ''8071262'')]) (JStr ''8071262'')
          # historicalManifests 1700000000"
proof -
  let ?b = "branch_manifest ''public'' (JObj [(''buildid'', JStr ''8071262'')]) (JStr ''8071262'')"
  let ?h = "sample ''2946550127499212992'' 300 ''Recent''"
  have b: "\<not> isHistorical ?b" "\<not> truthy (timeupdated ?b)"
    by (simp_all add: branch_manifest_def js_or_def lookup_def)
  have h: "isHistorical ?h" "truthy (timeupdated ?h)"
    by (simp_all add: sample_def)
  have hs: "list_all (\<lambda>m. isHistorical m \<and> has_epoch m) (historicalManifests 1700000000)"
    by (simp add: historicalManifests_def sample_def has_epoch_def)
  then have f: "filter (\<lambda>m. \<not> isHistorical m) (historicalManifests 1700000000) = []"
    "filter isHistorical (historicalManifests 1700000000) = historicalManifests 1700000000"
    by (simp_all add: list_all_iff)
  from hs have "list_all (\<lambda>m. if isHistorical m then has_epoch m else \<not> truthy (timeupdated m))
                  (historicalManifests 1700000000)"
    by (simp add: list_all_iff)
  with b have l: "list_all (\<lambda>m. if isHistorical m then has_epoch m else \<not> truthy (timeupdated m))
                  (?b # historicalManifests 1700000000)"
    by simp
  from pair_ordered_by_flag [of ?h ?b "?b # historicalManifests 1700000000"] b h l f
  show ?thesis by (simp add: sort_samples)
qed

subsection \<open>The keys of the depot table\<close>

lemma parseInt_None_iff:
  "parseInt s = None \<longleftrightarrow>
     takeWhile (is_digit (if has_hex_prefix (strip_sign (dropWhile is_space s)) then 16 else 10))
       (if has_hex_prefix (strip_sign (dropWhile is_space s))
        then drop 2 (strip_sign (dropWhile is_space s))
        else strip_sign (dropWhile is_space s)) = []"
  by (simp add: parseInt_def Let_def)

lemma takeWhile_begins: "takeWhile P s \<noteq> [] \<longleftrightarrow> begins_with P s"
  by (cases s) (simp_all add: begins_with_def)

lemma parseInt_numeric_key: "parseInt k \<noteq> None \<longleftrightarrow> numeric_key k"
  using takeWhile_begins [of "is_digit 16"] takeWhile_begins [of "is_digit 10"]
  by (simp add: parseInt_None_iff numeric_key_def Let_def)

lemma not_index: "array_index ''depots'' = None" "array_index ''appinfo'' = None"
  by (simp_all add: array_index_def is_digit_def digit_of_def)

lemma prop_of_falsy:
  "\<not> truthy v \<Longrightarrow> prop_of v ''depots'' = JUndefined"
  "\<not> truthy v \<Longrightarrow> prop_of v ''appinfo'' = JUndefined"
  by (cases v; simp add: not_index)+

text \<open>The ids of the depots of a run that did not throw: the qualifying keys, or the app id
  alone.\<close>

lemma getGameDepots_try_ids:
  assumes "getGameDepots_try appId (Product productInfo) = Inr ds"
    and "k \<in> set (own_keys (prop_of (prop_of productInfo ''appinfo'') ''depots''))"
  shows "set (map depot_id ds)
           = JStr ` set (qualifying_keys (prop_of (prop_of productInfo ''appinfo'') ''depots''))
       \<or> (qualifying_keys (prop_of (prop_of productInfo ''appinfo'') ''depots'') = []
          \<and> set (map depot_id ds) = {appId})"
proof -
  let ?dd = "prop_of (prop_of productInfo ''appinfo'') ''depots''"
  from assms(2) have dd: "truthy ?dd" using own_keys_falsy by fastforce
  then have ai: "truthy (prop_of productInfo ''appinfo'')" using prop_of_falsy(1) by fastforce
  then have pi: "truthy productInfo" using prop_of_falsy(2) by fastforce
  from assms(1) pi ai dd obtain depots where
    l: "depot_loop ?dd (own_keys ?dd) [] = Inr depots"
    and r: "ds = (if depots = []
                  then [app_as_depot appId
                          (js_or (get_opt (prop_of (prop_of productInfo ''appinfo'') ''common'') ''name'')
                                 (JStr (''App '' @ to_string appId)))]
                  else depots)"
    by (auto simp: getGameDepots_try_def Let_def and_then_def split: sum.splits if_splits)
  from depot_loop_ids [OF l] have ids: "map depot_id depots = map JStr (qualifying_keys ?dd)"
    by (simp add: qualifying_keys_def)
  then have sets: "set (map depot_id depots) = JStr ` set (qualifying_keys ?dd)"
    by (simp only: set_map)
  show ?thesis
  proof (cases "depots = []")
    case True
    with ids r show ?thesis by (simp add: app_as_depot_def)
  next
    case False
    with sets r show ?thesis by simp
  qed
qed

text \<open>
  Claim C7, as stated, fails: the key "-5" is not a valid positive integer id, and the loop
  produces a depot for it (\<^verbatim>\<open>parseInt("-5")\<close> is a number, so the key is not skipped).
\<close>

theorem depot_for_negative_key_counterexample:
  "own_keys (JObj [(''-5'', JObj [(''name'', JStr ''Soundtrack'')]), (''branches'', JObj [])])
     = [''-5'', ''branches'']
   \<and> \<not> positive_integer_id ''-5''
   \<and> getGameDepots (JNum 413150)
       (Product (JObj [(''appinfo'',
          JObj [(''depots'',
                 JObj [(''-5'', JObj [(''name'', JStr ''Soundtrack'')]), (''branches'', JObj [])])])]))
     = Resolved
         [\<lparr>depot_id = JStr ''-5'', depot_name = JStr ''Soundtrack'', osType = JStr ''Unknown'',
           dlcAppId = JNull, maxSize = JNull, systemDefined = JBool False,
           optional = JBool False, sharedInstall = JBool False, language = JNull,
           encryptedSize = JNull, depot_rawData = JObj [(''name'', JStr ''Soundtrack'')]\<rparr>]"
  by (simp add: positive_integer_id_def is_digit_def digit_of_def
      getGameDepots_def getGameDepots_try_def Let_def and_then_def lookup_def
      parseInt_def strip_sign_def has_hex_prefix_def is_space_def make_depot_def get_def
      getOsType_def osFromConfig_def osFromName_def js_or_def get_opt_def
      lower_string_def lower_char_def digits_value_def)

text \<open>
  Claim C7, amended. The loop skips the key "branches" and every key from which
  \<^verbatim>\<open>parseInt\<close> reads no number. When the extraction runs without an error, for an app id
  that is a number, then for every key of the depot table: a depot with this id is
  produced if and only if the key is not "branches" and \<^verbatim>\<open>parseInt\<close> reads a number from
  it; and \<^verbatim>\<open>parseInt\<close> reads a number exactly from a numeric key, one that begins, after
  white space and an optional sign, with a decimal digit, or with \<^verbatim>\<open>0x\<close> or \<^verbatim>\<open>0X\<close> and a
  hexadecimal digit. Such a key need not be positive ("-5") nor an integer numeral
  ("12abc", "0x1A", " 7").
\<close>

theorem depot_for_numeric_keys:
  assumes "getGameDepots_try (JNum n) (Product productInfo) = Inr ds"
    and "k \<in> set (own_keys (prop_of (prop_of productInfo ''appinfo'') ''depots''))"
  shows "(JStr k \<in> set (map depot_id ds)) = (k \<noteq> ''branches'' \<and> parseInt k \<noteq> None)
       \<and> (parseInt k \<noteq> None) = numeric_key k"
proof (intro conjI)
  let ?dd = "prop_of (prop_of productInfo ''appinfo'') ''depots''"
  from assms(2) have q: "(k \<in> set (qualifying_keys ?dd)) = (k \<noteq> ''branches'' \<and> parseInt k \<noteq> None)"
    by (auto simp: qualifying_keys_def)
  from getGameDepots_try_ids [OF assms]
  have "(JStr k \<in> set (map depot_id ds)) = (k \<in> set (qualifying_keys ?dd))"
    by auto
  with q show "(JStr k \<in> set (map depot_id ds)) = (k \<noteq> ''branches'' \<and> parseInt k \<noteq> None)"
    by simp
  show "(parseInt k \<noteq> None) = numeric_key k"
    by (rule parseInt_numeric_key)
qed

text \<open>A depot table with the keys "413153", "12abc", "0x" and "branches": the first two
  are numeric keys and get a depot, the other two get none.\<close>

theorem depot_for_numeric_keys_witness:
  "getGameDepots_try (JNum 413150)
     (Product (JObj [(''appinfo'',
          JObj [(''depots'',
                 JObj [(''413153'', JObj [(''name'', JStr ''Windows content'')]),
                       (''12abc'', JObj []),
                       (''0x'', JObj []),
                       (''branches'', JObj [])])])]))
     = Inr
      [\<lparr>depot_id = JStr ''413153'', depot_name = JStr ''Windows content'',
         osType = JStr ''Windows'', dlcAppId = JNull, maxSize = JNull,
         systemDefined = JBool False, optional = JBool False, sharedInstall = JBool False,
         language = JNull, encryptedSize = JNull,
         depot_rawData = JObj [(''name'', JStr ''Windows content'')]\<rparr>,
       \<lparr>depot_id = JStr ''12abc'', depot_name = JStr ''Depot 12abc'',
         osType = JStr ''Unknown'', dlcAppId = JNull, maxSize = JNull,
         systemDefined = JBool False, optional = JBool False, sharedInstall = JBool False,
         language = JNull, encryptedSize = JNull, depot_rawData = JObj []\<rparr>]
   \<and> numeric_key ''413153'' \<and> numeric_key ''12abc'' \<and> \<not> numeric_key ''0x''
   \<and> \<not> numeric_key ''branches''
   \<and> JStr ''12abc'' \<in> set (map depot_id
      [\<lparr>depot_id = JStr ''413153'', depot_name = JStr ''Windows content'',
         osType = JStr ''Windows'', dlcAppId = JNull, maxSize = JNull,
         systemDefined = JBool False, optional = JBool False, sharedInstall = JBool False,
         language = JNull, encryptedSize = JNull,
         depot_rawData = JObj [(''name'', JStr ''Windows content'')]\<rparr>,
       \<lparr>depot_id = JStr ''12abc'', depot_name = JStr ''Depot 12abc'',
         osType = JStr ''Unknown'', dlcAppId = JNull, maxSize = JNull,
         systemDefined = JBool False, optional = JBool False, sharedInstall = JBool False,
         language = JNull, encryptedSize = JNull, depot_rawData = JObj []\<rparr>])
   \<and> JStr ''0x'' \<notin> set (map depot_id
      [\<lparr>depot_id = JStr ''413153'', depot_name = JStr ''Windows content'',
         osType = JStr ''Windows'', dlcAppId = JNull, maxSize = JNull,
         systemDefined = JBool False, optional = JBool False, sharedInstall = JBool False,
         language = JNull, encryptedSize = JNull,
         depot_rawData = JObj [(''name'', JStr ''Windows content'')]\<rparr>,
       \<lparr>depot_id = JStr ''12abc'', depot_name = JStr ''Depot 12abc'',
         osType = JStr ''Unknown'', dlcAppId = JNull, maxSize = JNull,
         systemDefined = JBool False, optional = JBool False, sharedInstall = JBool False,
         language = JNull, encryptedSize = JNull, depot_rawData = JObj []\<rparr>])"
proof -
  let ?p = "JObj [(''appinfo'',
          JObj [(''depots'',
                 JObj [(''413153'', JObj [(''name'', JStr ''Windows content'')]),
                       (''12abc'', JObj []),
                       (''0x'', JObj []),
                       (''branches'', JObj [])])])]"
  let ?ds = "[\<lparr>depot_id = JStr ''413153'', depot_name = JStr ''Windows content'',
         osType = JStr ''Windows'', dlcAppId = JNull, maxSize = JNull,
         systemDefined = JBool False, optional = JBool False, sharedInstall = JBool False,
         language = JNull, encryptedSize = JNull,
         depot_rawData = JObj [(''name'', JStr ''Windows content'')]\<rparr>,
       \<lparr>depot_id = JStr ''12abc'', depot_name = JStr ''Depot 12abc'',
         osType = JStr ''Unknown'', dlcAppId = JNull, maxSize = JNull,
         systemDefined = JBool False, optional = JBool False, sharedInstall = JBool False,
         language = JNull, encryptedSize = JNull, depot_rawData = JObj []\<rparr>]"
  let ?keys = "own_keys (prop_of (prop_of ?p ''appinfo'') ''depots'')"
  have run: "getGameDepots_try (JNum 413150) (Product ?p) = Inr ?ds"
    by (simp add: getGameDepots_try_def Let_def and_then_def lookup_def
      parseInt_def strip_sign_def has_hex_prefix_def is_space_def is_digit_def digit_of_def
      make_depot_def get_def
      getOsType_def osFromConfig_def osFromName_def js_or_def get_opt_def
      lower_string_def lower_char_def)
  have k1: "''413153'' \<in> set ?keys" by (simp add: lookup_def)
  have k2: "''12abc'' \<in> set ?keys" by (simp add: lookup_def)
  have k3: "''0x'' \<in> set ?keys" by (simp add: lookup_def)
  have k4: "''branches'' \<in> set ?keys" by (simp add: lookup_def)
  have p: "parseInt ''413153'' \<noteq> None" "parseInt ''12abc'' \<noteq> None" "parseInt ''0x'' = None"
    "parseInt ''branches'' = None"
    by (simp_all add: parseInt_def strip_sign_def has_hex_prefix_def is_space_def is_digit_def
        digit_of_def)
  from depot_for_numeric_keys [OF run k1] depot_for_numeric_keys [OF run k2]
    depot_for_numeric_keys [OF run k3] depot_for_numeric_keys [OF run k4] run p
  show ?thesis by simp
qed

subsection \<open>The search term\<close>

lemma all_space_dropWhile:
  "(\<forall>c \<in> set (dropWhile is_space s). is_space c) \<longleftrightarrow> (\<forall>c \<in> set s. is_space c)"
proof
  assume a: "\<forall>c \<in> set (dropWhile is_space s). is_space c"
  have "dropWhile is_space s = []"
  proof (rule ccontr)
    assume n: "dropWhile is_space s \<noteq> []"
    then have "\<not> is_space (hd (dropWhile is_space s))" by (rule hd_dropWhile)
    moreover from n have "hd (dropWhile is_space s) \<in> set (dropWhile is_space s)"
      by simp
    ultimately show False using a by blast
  qed
  then show "\<forall>c \<in> set s. is_space c" by (simp only: dropWhile_eq_Nil_conv)
next
  assume "\<forall>c \<in> set s. is_space c"
  then show "\<forall>c \<in> set (dropWhile is_space s). is_space c"
    by (blast dest: set_dropWhileD)
qed

lemma trim_empty_iff: "trim s = [] \<longleftrightarrow> list_all is_space s"
proof -
  have "trim s = [] \<longleftrightarrow> dropWhile is_space (rev (dropWhile is_space s)) = []"
    by (simp only: trim_def rev_is_Nil_conv)
  also have "\<dots> \<longleftrightarrow> (\<forall>c \<in> set (dropWhile is_space s). is_space c)"
    by (simp only: dropWhile_eq_Nil_conv set_rev)
  also have "\<dots> \<longleftrightarrow> list_all is_space s"
    by (simp only: all_space_dropWhile list_all_iff)
  finally show ?thesis .
qed

lemma prompt_input_accepted: "prompt_input v entries = Some t \<Longrightarrow> v t = Accepted"
  by (induction entries) (auto split: if_splits)

lemma prompt_input_member: "prompt_input v entries = Some t \<Longrightarrow> t \<in> set entries"
  by (induction entries) (auto split: if_splits)

lemma start_search_terms:
  assumes "r \<in> set (start_search running entries reply)"
  shows "\<exists>t. query_term r = Some t \<and> validate t = Accepted \<and> t \<in> set entries"
proof -
  have "\<exists>t. getSearchTerm running entries = Some (Resolved t) \<and> r = search_request t"
  proof (cases "getSearchTerm running entries")
    case None
    with assms show ?thesis by (simp add: start_search_def)
  next
    case (Some p)
    with assms show ?thesis
      by (cases p) (simp_all add: start_search_def searchGames_def)
  qed
  then obtain t where g: "getSearchTerm running entries = Some (Resolved t)"
    and r: "r = search_request t" by blast
  from g have p: "prompt_input validate entries = Some t"
    by (auto simp: getSearchTerm_def split: if_splits)
  from r have "query_term r = Some t"
    by (simp add: search_request_def query_term_def)
  with prompt_input_accepted [OF p] prompt_input_member [OF p] show ?thesis by blast
qed

text \<open>
  Claim C4, as stated, fails for \<^verbatim>\<open>SteamSearch.searchGames\<close>: the function does not look at
  its term, and for a term of three spaces it sends the query to the storefront and
  returns the (empty) result.
\<close>

theorem searchGames_blank_counterexample:
  "list_all is_space ''   ''
   \<and> searchGames ''   '' (HttpData (JObj [(''total'', JNum 0), (''items'', JArr [])]))
       = ([search_request ''   ''], Resolved [])
   \<and> query_term (search_request ''   '') = Some ''   ''"
  by (simp add: is_space_def searchGames_def search_result_def lookup_def search_request_def
      query_term_def array_index_def is_digit_def digit_of_def)

text \<open>
  Claim C4, amended. For every blank or whitespace-only term, the prompt of
  \<^verbatim>\<open>CLI.getSearchTerm\<close> refuses the entry with the message "Please enter a game name to
  search" and asks again, so that the interactive flow sends no query with such a term to
  the storefront. \<^verbatim>\<open>SteamSearch.searchGames\<close> itself does not validate: called with such a
  term, it sends the query.
\<close>

theorem blank_term_rejected_at_prompt:
  assumes "list_all is_space t"
  shows "validate t = Refused ''Please enter a game name to search''
       \<and> prompt_input validate (t # entries) = prompt_input validate entries
       \<and> list_all (\<lambda>r. query_term r \<noteq> Some t) (start_search running entries reply)
       \<and> fst (searchGames t reply) = [search_request t]
       \<and> query_term (search_request t) = Some t"
proof -
  from assms have v: "validate t = Refused ''Please enter a game name to search''"
    by (simp add: validate_def trim_empty_iff)
  have "\<forall>r \<in> set (start_search running entries reply). query_term r \<noteq> Some t"
  proof
    fix r assume "r \<in> set (start_search running entries reply)"
    from start_search_terms [OF this] v show "query_term r \<noteq> Some t" by auto
  qed
  with v show ?thesis
    by (simp add: list_all_iff searchGames_def search_request_def query_term_def)
qed

text \<open>The user first submits a space, a no-break space and a tab, and then
  "Stardew Valley".\<close>

theorem blank_term_rejected_at_prompt_witness:
  "validate [CHR 0x20, CHR 0xA0, CHR 0x09] = Refused ''Please enter a game name to search''
   \<and> start_search True [[CHR 0x20, CHR 0xA0, CHR 0x09], ''Stardew Valley'']
        (HttpData (JObj [(''total'', JNum 0), (''items'', JArr [])]))
       = [search_request ''Stardew Valley'']
   \<and> fst (searchGames [CHR 0x20, CHR 0xA0, CHR 0x09] (HttpData (JObj [(''total'', JNum 0), (''items'', JArr [])])))
       = [search_request [CHR 0x20, CHR 0xA0, CHR 0x09]]"
  using blank_term_rejected_at_prompt [of "[CHR 0x20, CHR 0xA0, CHR 0x09]" "[''Stardew Valley'']" True
     "HttpData (JObj [(''total'', JNum 0), (''items'', JArr [])])"]
  by (simp add: is_space_def start_search_def getSearchTerm_def validate_def trim_def
      searchGames_def)

end
